theory Spec2Isabelle
  imports Complex_Main
begin

section \<open>Conventions of the embedding\<close>

text \<open>
  The program is \<^verbatim>\<open>networks/actor_critic.py\<close>: two return-estimation routines, the
  \<^verbatim>\<open>Policy\<close> network module and the \<^verbatim>\<open>Agent\<close> that buffers transitions and updates the
  policy.

  \<^item> Tensor entries are exact reals; rounding of the 32-bit floats is not modelled.
  \<^item> A one-dimensional tensor is the list of its entries.
  \<^item> A Python exception is the name of its class, and a call that may raise returns
    \<open>exn + 'a\<close> with \<open>Inl\<close> for the exception.
\<close>

type_synonym exn = string

text \<open>Sequencing: the first exception ends the computation.\<close>

definition bind_exn :: "exn + 'a \<Rightarrow> ('a \<Rightarrow> exn + 'b) \<Rightarrow> exn + 'b" where
  "bind_exn m f = (case m of Inl e \<Rightarrow> Inl e | Inr a \<Rightarrow> f a)"

text \<open>The exception that a call raised, if it raised one.\<close>

definition raised :: "exn + 'a \<Rightarrow> exn option" where
  "raised m = (case m of Inl e \<Rightarrow> Some e | Inr a \<Rightarrow> None)"

section \<open>Return estimation\<close>

subsection \<open>\<^verbatim>\<open>discount_rewards\<close>\<close>

text \<open>
  \<^verbatim>\<open>
  def discount_rewards(r, gamma):
      discounted_r = torch.zeros_like(r)
      running_add = 0
      for t in reversed(range(0, r.size(-1))):
          running_add = running_add * gamma + r[t]
          discounted_r[t] = running_add
      return discounted_r
  \<close>
  The loop counter \<open>k\<close> of \<open>discount_loop\<close> is the number of indices still to visit: the
  body runs at \<open>t = k - 1\<close>, so the indices are visited from \<open>length r - 1\<close> down to \<open>0\<close>
  and every read \<open>r ! t\<close> is in range.
\<close>

fun discount_loop :: "real list \<Rightarrow> real \<Rightarrow> nat \<Rightarrow> real \<Rightarrow> real list \<Rightarrow> real list" where
  "discount_loop r gamma 0 running_add discounted_r = discounted_r"
| "discount_loop r gamma (Suc t) running_add discounted_r =
     (let running_add' = running_add * gamma + r ! t
      in discount_loop r gamma t running_add' (discounted_r[t := running_add']))"

definition discount_rewards :: "real list \<Rightarrow> real \<Rightarrow> real list" where
  "discount_rewards r gamma =
     discount_loop r gamma (length r) 0 (replicate (length r) 0)"

subsection \<open>\<^verbatim>\<open>bootstrapped_discount_rewards\<close>\<close>

text \<open>
  \<^verbatim>\<open>
  def bootstrapped_discount_rewards(r, gamma, done, next_values):
      bootstrapped_discounted_r = torch.zeros_like(r)
      running_add = 0
      for t in reversed(range(0, r.size(-1))):
          if done[t]:
              running_add = 0
          else:
              running_add = gamma * next_values[t]
          bootstrapped_discounted_r[t] = running_add + r[t]
      return bootstrapped_discounted_r
  \<close>
  The bound of the loop is the length of \<open>r\<close> alone. Reading \<open>done[t]\<close> or
  \<open>next_values[t]\<close> past the end of the sequence raises Python's \<^verbatim>\<open>IndexError\<close>;
  \<open>next_values[t]\<close> is read only where \<open>done[t]\<close> is false.
\<close>

fun bootstrapped_loop ::
  "real list \<Rightarrow> real \<Rightarrow> bool list \<Rightarrow> real list \<Rightarrow> nat \<Rightarrow> real list \<Rightarrow> exn + real list" where
  "bootstrapped_loop r gamma done next_values 0 out = Inr out"
| "bootstrapped_loop r gamma done next_values (Suc t) out =
     (if length done \<le> t then Inl ''IndexError''
      else if done ! t then
        (let running_add = 0
         in bootstrapped_loop r gamma done next_values t (out[t := running_add + r ! t]))
      else if length next_values \<le> t then Inl ''IndexError''
      else
        (let running_add = gamma * next_values ! t
         in bootstrapped_loop r gamma done next_values t (out[t := running_add + r ! t])))"

definition bootstrapped_discount_rewards ::
  "real list \<Rightarrow> real \<Rightarrow> bool list \<Rightarrow> real list \<Rightarrow> exn + real list" where
  "bootstrapped_discount_rewards r gamma done next_values =
     bootstrapped_loop r gamma done next_values (length r) (replicate (length r) 0)"

section \<open>The policy network\<close>

text \<open>
  The layers of \<^verbatim>\<open>torch.nn\<close> are not part of the program: their constructors and the
  tensor functions that \<^verbatim>\<open>Policy\<close> calls are the fields of \<open>torch\<close>, over a type \<open>'t\<close> of
  tensors; \<open>'d\<close> is the type of distribution objects. A call that can raise (a layer on
  an input of the wrong shape, a sum along a dimension the tensor does not have,
  \<^verbatim>\<open>Normal\<close> on invalid arguments) returns \<open>exn + _\<close>.
\<close>

record ('t, 'd) torch =
  nn_Linear :: "nat \<Rightarrow> nat \<Rightarrow> 't \<Rightarrow> exn + 't"
  nn_LSTM :: "nat \<Rightarrow> nat \<Rightarrow> 't \<Rightarrow> exn + 't \<times> 't"
  nn_ReLU :: "'t \<Rightarrow> exn + 't"
  nn_Tanh :: "'t \<Rightarrow> exn + 't"
  F_softplus :: "'t \<Rightarrow> exn + 't"
  torch_zeros :: "nat \<Rightarrow> 't"
  add_scalar :: "'t \<Rightarrow> real \<Rightarrow> 't"
  torch_sum :: "'t \<Rightarrow> nat \<Rightarrow> exn + 't"
  unsqueeze :: "'t \<Rightarrow> nat \<Rightarrow> 't"
  squeeze :: "'t \<Rightarrow> nat \<Rightarrow> 't"
  Normal :: "'t \<Rightarrow> 't \<Rightarrow> exn + 'd"

text \<open>
  An attribute of the module object, and the object as the map from attribute names to
  attributes. Reading an attribute that was never set raises \<^verbatim>\<open>AttributeError\<close>
  (\<^verbatim>\<open>torch.nn.Module.__getattr__\<close>).
\<close>

datatype 't attr =
    Number int
  | Parameter 't
  | Module "'t \<Rightarrow> exn + 't"
  | Recurrent "'t \<Rightarrow> exn + 't \<times> 't"

type_synonym 't module_object = "string \<rightharpoonup> 't attr"

definition getattr :: "'t module_object \<Rightarrow> string \<Rightarrow> exn + 't attr" where
  "getattr self name =
     (case self name of None \<Rightarrow> Inl ''AttributeError'' | Some a \<Rightarrow> Inr a)"

fun call :: "'t attr \<Rightarrow> 't \<Rightarrow> exn + 't" where
  "call (Module f) x = f x"
| "call _ x = Inl ''TypeError''"

fun call_recurrent :: "'t attr \<Rightarrow> 't \<Rightarrow> exn + 't \<times> 't" where
  "call_recurrent (Recurrent f) x = f x"
| "call_recurrent _ x = Inl ''TypeError''"

fun tensor_of :: "'t attr \<Rightarrow> exn + 't" where
  "tensor_of (Parameter t) = Inr t"
| "tensor_of _ = Inl ''TypeError''"

text \<open>
  \<^verbatim>\<open>
  def __init__(self, state_space, action_space):
      super().__init__()
      self.state_space = state_space
      self.action_space = action_space
      self.hidden = 64
      self.tanh = torch.nn.Tanh()
      self.embedding_ac = torch.nn.Linear(state_space, 512)
      self.relu = torch.nn.ReLU()
      self.fc1_ac = torch.nn.Linear(512, 2048)
      self.lstm_ac = torch.nn.LSTM(2048, 1024, batch_first=True)
      self.fc2_actor = torch.nn.Linear(1024, action_space)
      self.fc2_critic = torch.nn.Linear(1024, 1)
      self.sigma_activation = F.softplus
      init_sigma = 0.5
      self.sigma = torch.nn.Parameter(torch.zeros(self.action_space)+init_sigma)
      self.init_weights()
  \<close>
  \<^verbatim>\<open>init_weights\<close> redraws the weights of the \<^verbatim>\<open>Linear\<close> layers and sets no attribute;
  the weights are inside the layers of \<open>torch\<close>.
\<close>

definition Policy_init :: "('t, 'd) torch \<Rightarrow> nat \<Rightarrow> nat \<Rightarrow> 't module_object" where
  "Policy_init T state_space action_space =
     (let init_sigma = 1 / 2 in
      map_of
        [(''state_space'', Number (int state_space)),
         (''action_space'', Number (int action_space)),
         (''hidden'', Number 64),
         (''tanh'', Module (nn_Tanh T)),
         (''embedding_ac'', Module (nn_Linear T state_space 512)),
         (''relu'', Module (nn_ReLU T)),
         (''fc1_ac'', Module (nn_Linear T 512 2048)),
         (''lstm_ac'', Recurrent (nn_LSTM T 2048 1024)),
         (''fc2_actor'', Module (nn_Linear T 1024 action_space)),
         (''fc2_critic'', Module (nn_Linear T 1024 1)),
         (''sigma_activation'', Module (F_softplus T)),
         (''sigma'', Parameter (add_scalar T (torch_zeros T action_space) init_sigma))])"

text \<open>
  \<^verbatim>\<open>
  def forward(self, x):
      x = self.embedding_ac(x)
      x = torch.sum(x, dim=1)  # Summing over the observations
      x = self.relu(x)
      x = self.fc1_ac(x)
      x = self.relu(x)
      x, _ = self.lstm_ac(x.unsqueeze(0))  # Adding batch dimension for LSTM
      action_mean = self.fc2_actor(x.squeeze(0))
      action_sigma = self.sigma_activation(self.sigma)
      normal_dist = Normal(action_mean, action_sigma)
      value = self.fc3_critic(x.squeeze(0))
      return normal_dist,  #action_mean, action_sigma
  \<close>
  The value returned is a Python tuple, the list of its components: the \<^verbatim>\<open>return\<close>
  statement builds a tuple of one component.
\<close>

datatype ('t, 'd) component = Distribution 'd | Value 't

definition forward ::
  "('t, 'd) torch \<Rightarrow> 't module_object \<Rightarrow> 't \<Rightarrow> exn + ('t, 'd) component list" where
  "forward T self x =
     bind_exn (getattr self ''embedding_ac'') (\<lambda>embedding_ac.
     bind_exn (call embedding_ac x) (\<lambda>x.
     bind_exn (torch_sum T x 1) (\<lambda>x.
     bind_exn (getattr self ''relu'') (\<lambda>relu.
     bind_exn (call relu x) (\<lambda>x.
     bind_exn (getattr self ''fc1_ac'') (\<lambda>fc1_ac.
     bind_exn (call fc1_ac x) (\<lambda>x.
     bind_exn (getattr self ''relu'') (\<lambda>relu.
     bind_exn (call relu x) (\<lambda>x.
     bind_exn (getattr self ''lstm_ac'') (\<lambda>lstm_ac.
     bind_exn (call_recurrent lstm_ac (unsqueeze T x 0)) (\<lambda>(x, _).
     bind_exn (getattr self ''fc2_actor'') (\<lambda>fc2_actor.
     bind_exn (call fc2_actor (squeeze T x 0)) (\<lambda>action_mean.
     bind_exn (getattr self ''sigma_activation'') (\<lambda>sigma_activation.
     bind_exn (getattr self ''sigma'') (\<lambda>sigma.
     bind_exn (tensor_of sigma) (\<lambda>sigma.
     bind_exn (call sigma_activation sigma) (\<lambda>action_sigma.
     bind_exn (Normal T action_mean action_sigma) (\<lambda>normal_dist.
     bind_exn (getattr self ''fc3_critic'') (\<lambda>fc3_critic.
     bind_exn (call fc3_critic (squeeze T x 0)) (\<lambda>value.
     Inr [Distribution normal_dist]))))))))))))))))))))"

section \<open>Tensors of the update\<close>

text \<open>
  A tensor entry that takes part in automatic differentiation is modelled by the
  function that its computation graph denotes: its value for every setting of the
  policy's parameters. The number the program sees is the function at the current
  parameters. \<^verbatim>\<open>t.detach()\<close> keeps the number and cuts the graph, so it is the constant
  function at the current value. A tensor without a graph (rewards, returns) is a list
  of reals, lifted by \<open>as_tensor\<close> where it meets a tensor with one.
\<close>

type_synonym 'p scalar = "'p \<Rightarrow> real"

type_synonym 'p tensor = "'p scalar list"

definition as_tensor :: "real list \<Rightarrow> 'p tensor" where
  "as_tensor xs = map (\<lambda>x _. x) xs"

definition detach :: "'p \<Rightarrow> 'p tensor \<Rightarrow> 'p tensor" where
  "detach \<theta> t = map (\<lambda>f _. f \<theta>) t"

text \<open>
  \<^verbatim>\<open>torch.stack\<close> of a Python list: an empty list raises \<^verbatim>\<open>RuntimeError\<close>
  ("stack expects a non-empty TensorList"). The stack of a non-empty list is the list
  of its entries. The entries of one buffer are tensors of one shape: the
  log-probabilities are scalars, every reward is a tensor of one entry, and the type
  \<open>'x\<close> of observations stands for the tensors of the one shape that the environment
  produces (its state dimension is fixed).
\<close>

definition torch_stack :: "'a list \<Rightarrow> exn + 'a list" where
  "torch_stack xs = (if xs = [] then Inl ''RuntimeError'' else Inr xs)"

text \<open>
  An elementwise operation on two one-dimensional tensors follows torch's broadcasting:
  equal lengths pair the entries, a tensor of one entry (also a zero-dimensional one,
  which is what \<^verbatim>\<open>squeeze\<close> makes of a single entry) is repeated along the other, and
  any other pair of lengths raises \<^verbatim>\<open>RuntimeError\<close>.
\<close>

definition broadcast :: "('a \<Rightarrow> 'b \<Rightarrow> 'c) \<Rightarrow> 'a list \<Rightarrow> 'b list \<Rightarrow> exn + 'c list" where
  "broadcast f xs ys =
     (if length xs = length ys then Inr (map2 f xs ys)
      else if length ys = 1 then Inr (map (\<lambda>x. f x (hd ys)) xs)
      else if length xs = 1 then Inr (map (f (hd xs)) ys)
      else Inl ''RuntimeError'')"

text \<open>
  \<^verbatim>\<open>t.mean()\<close>. (For an empty tensor torch gives NaN, which the reals do not have; the
  update never takes the mean of an empty tensor when the policy returns a value for
  every step.)
\<close>

definition mean :: "'p tensor \<Rightarrow> 'p scalar" where
  "mean t = (\<lambda>\<theta>. (\<Sum>f\<leftarrow>t. f \<theta>) / real (length t))"

text \<open>
  \<^verbatim>\<open>F.pairwise_distance(x1, x2, p=2)\<close> is \<^verbatim>\<open>norm(x1 - x2 + eps, 2, dim = last)\<close> with
  \<^verbatim>\<open>eps = 1e-6\<close>. Here \<open>x1\<close> is one-dimensional with \<open>M\<close> entries and \<open>x2\<close> is a column of
  shape \<open>(N, 1)\<close>, given by its \<open>N\<close> entries: the difference broadcasts to shape \<open>(N, M)\<close>
  with entry \<open>(i, j)\<close> equal to \<open>x1[j] - x2[i] + eps\<close>, and the norm is taken along \<open>j\<close>,
  which leaves one distance for every entry of \<open>x2\<close>.
\<close>

definition eps :: real where
  "eps = 1 / 1000000"

definition pairwise_distance :: "'p tensor \<Rightarrow> 'p tensor \<Rightarrow> 'p tensor" where
  "pairwise_distance x1 x2 =
     map (\<lambda>g. (\<lambda>\<theta>. sqrt (\<Sum>v\<leftarrow>x1. (v \<theta> - g \<theta> + eps)\<^sup>2))) x2"

section \<open>The action distribution\<close>

text \<open>
  \<^verbatim>\<open>torch.distributions.Normal(loc, scale)\<close>, by the entries of its two tensors after
  broadcasting. \<^verbatim>\<open>.mean\<close> is \<open>loc\<close>. \<^verbatim>\<open>.sample()\<close> draws with \<^verbatim>\<open>torch.normal\<close> at the
  current values, outside the graph; the random generator is a state \<open>'g\<close> that the draw
  advances. \<^verbatim>\<open>.log_prob(value)\<close> is
  \<^verbatim>\<open>-((value - loc) ** 2) / (2 * scale ** 2) - log(scale) - log(sqrt(2 * pi))\<close>.
\<close>

record 'p normal =
  loc :: "'p tensor"
  scale :: "'p tensor"

type_synonym 'g torch_normal = "'g \<Rightarrow> real list \<Rightarrow> real list \<Rightarrow> real list \<times> 'g"

definition sample :: "'g torch_normal \<Rightarrow> 'p \<Rightarrow> 'p normal \<Rightarrow> 'g \<Rightarrow> 'p tensor \<times> 'g" where
  "sample draw \<theta> d g =
     (let (a, g') = draw g (map (\<lambda>f. f \<theta>) (loc d)) (map (\<lambda>f. f \<theta>) (scale d))
      in (as_tensor a, g'))"

definition log_prob :: "'p normal \<Rightarrow> 'p tensor \<Rightarrow> 'p tensor" where
  "log_prob d v =
     map (\<lambda>(a, m, s). (\<lambda>\<theta>. - ((a \<theta> - m \<theta>)\<^sup>2) / (2 * (s \<theta>)\<^sup>2) - ln (s \<theta>) - ln (sqrt (2 * pi))))
       (zip v (zip (loc d) (scale d)))"

definition tensor_sum :: "'p tensor \<Rightarrow> 'p scalar" where
  "tensor_sum t = (\<lambda>\<theta>. \<Sum>f\<leftarrow>t. f \<theta>)"

section \<open>The agent\<close>

text \<open>
  \<^verbatim>\<open>Agent.__init__(self, policy, device)\<close> takes the policy as an argument and only ever
  calls it: \<^verbatim>\<open>a, b = self.policy(x)\<close>. The field \<open>policy\<close> is that call together with the
  unpacking of its result into two targets: \<open>Inl\<close> when either raises, else the
  distribution and the value tensor (one entry for every stacked input). The argument
  is a single observation in \<open>get_action\<close> and a stack of buffered ones in
  \<open>update_policy\<close>. \<open>params\<close> are the values of \<^verbatim>\<open>policy.parameters()\<close>, \<open>optimizer\<close> is the
  state of Adam.
\<close>

datatype 'x policy_input = Single 'x | Stacked "'x list"

record ('x, 'p, 'o) agent =
  policy :: "'x policy_input \<Rightarrow> exn + 'p normal \<times> 'p tensor"
  params :: 'p
  optimizer :: 'o
  gamma :: real
  states :: "'x list"
  next_states :: "'x list"
  action_log_probs :: "'p scalar list"
  rewards :: "real list"
  done_flags :: "bool list"

definition Agent_init ::
  "('x policy_input \<Rightarrow> exn + 'p normal \<times> 'p tensor) \<Rightarrow> 'p \<Rightarrow> 'o \<Rightarrow> ('x, 'p, 'o) agent" where
  "Agent_init pol \<theta> opt =
     \<lparr>policy = pol, params = \<theta>, optimizer = opt, gamma = 99 / 100,
      states = [], next_states = [], action_log_probs = [], rewards = [], done_flags = []\<rparr>"

text \<open>
  \<^verbatim>\<open>
  def store_outcome(self, state, next_state, action_log_prob, reward, done):
      self.states.append(torch.from_numpy(state).float())
      self.next_states.append(torch.from_numpy(next_state).float())
      self.action_log_probs.append(action_log_prob)
      self.rewards.append(torch.Tensor([reward]))
      self.done.append(done)
  \<close>
\<close>

definition store_outcome ::
  "('x, 'p, 'o) agent \<Rightarrow> 'x \<Rightarrow> 'x \<Rightarrow> 'p scalar \<Rightarrow> real \<Rightarrow> bool \<Rightarrow> ('x, 'p, 'o) agent" where
  "store_outcome A state next_state action_log_prob reward done =
     A\<lparr>states := states A @ [state],
       next_states := next_states A @ [next_state],
       action_log_probs := action_log_probs A @ [action_log_prob],
       rewards := rewards A @ [reward],
       done_flags := done_flags A @ [done]\<rparr>"

text \<open>
  \<^verbatim>\<open>
  def get_action(self, state, evaluation=False):
      x = torch.from_numpy(state).float().to(self.train_device)
      normal_dist, _ = self.policy(x)
      if evaluation:  # Return mean
          return normal_dist.mean, None
      else:   # Sample from the distribution
          action = normal_dist.sample()
          action_log_prob = normal_dist.log_prob(action).sum()
          return action, action_log_prob
  \<close>
  The result is paired with the state of the random generator after the call.
\<close>

definition get_action ::
  "'g torch_normal \<Rightarrow> ('x, 'p, 'o) agent \<Rightarrow> 'g \<Rightarrow> 'x \<Rightarrow> bool \<Rightarrow>
     (exn + 'p tensor \<times> 'p scalar option) \<times> 'g" where
  "get_action draw A g state evaluation =
     (let x = state in
      case policy A (Single x) of
        Inl e \<Rightarrow> (Inl e, g)
      | Inr (normal_dist, _) \<Rightarrow>
          if evaluation then (Inr (loc normal_dist, None), g)
          else
            (let (action, g') = sample draw (params A) normal_dist g;
                 action_log_prob = tensor_sum (log_prob normal_dist action)
             in (Inr (action, Some action_log_prob), g')))"

subsection \<open>\<^verbatim>\<open>update_policy\<close>\<close>

text \<open>
  \<^verbatim>\<open>
  def update_policy(self):
      action_log_probs = torch.stack(self.action_log_probs, dim=0).to(self.train_device).squeeze(-1)
      states = torch.stack(self.states, dim=0).to(self.train_device).squeeze(-1)
      next_states = torch.stack(self.next_states, dim=0).to(self.train_device).squeeze(-1)
      rewards = torch.stack(self.rewards, dim=0).to(self.train_device).squeeze(-1)
      done = torch.Tensor(self.done).to(self.train_device)
  \<close>
\<close>

record ('x, 'p) rollout =
  r_action_log_probs :: "'p tensor"
  r_states :: "'x list"
  r_next_states :: "'x list"
  r_rewards :: "real list"
  r_done :: "bool list"

definition drain :: "('x, 'p, 'o) agent \<Rightarrow> exn + ('x, 'p) rollout" where
  "drain A =
     bind_exn (torch_stack (action_log_probs A)) (\<lambda>action_log_probs'.
     bind_exn (torch_stack (states A)) (\<lambda>states'.
     bind_exn (torch_stack (next_states A)) (\<lambda>next_states'.
     bind_exn (torch_stack (rewards A)) (\<lambda>rewards'.
     Inr \<lparr>r_action_log_probs = action_log_probs', r_states = states',
          r_next_states = next_states', r_rewards = rewards',
          r_done = done_flags A\<rparr>))))"

text \<open>
  \<^verbatim>\<open>
      self.states, self.next_states, self.action_log_probs, self.rewards, self.done = [], [], [], [], []
  \<close>
\<close>

definition clear :: "('x, 'p, 'o) agent \<Rightarrow> ('x, 'p, 'o) agent" where
  "clear A =
     A\<lparr>states := [], next_states := [], action_log_probs := [], rewards := [],
       done_flags := []\<rparr>"

text \<open>
  \<^verbatim>\<open>
      advantages = discounted_returns - values.squeeze()
      actor_loss = -(action_log_probs * advantages.detach()).mean()
      critic_loss = F.pairwise_distance(values.squeeze(), discounted_returns.unsqueeze(1), p=2).mean()
  \<close>
  \<open>\<theta>\<close> is the parameter setting at the time of the update, where \<open>detach\<close> reads the
  values.
\<close>

definition advantages :: "real list \<Rightarrow> 'p tensor \<Rightarrow> exn + 'p tensor" where
  "advantages discounted_returns values =
     broadcast (\<lambda>g v. (\<lambda>\<theta>. g \<theta> - v \<theta>)) (as_tensor discounted_returns) values"

definition actor_loss :: "'p \<Rightarrow> 'p tensor \<Rightarrow> 'p tensor \<Rightarrow> exn + 'p scalar" where
  "actor_loss \<theta> action_log_probs' advantages' =
     bind_exn (broadcast (\<lambda>l a. (\<lambda>\<theta>'. l \<theta>' * a \<theta>')) action_log_probs' (detach \<theta> advantages'))
       (\<lambda>weighted. Inr (\<lambda>\<theta>'. - mean weighted \<theta>'))"

definition critic_loss :: "'p tensor \<Rightarrow> real list \<Rightarrow> 'p scalar" where
  "critic_loss values discounted_returns =
     mean (pairwise_distance values (as_tensor discounted_returns))"

text \<open>
  \<^verbatim>\<open>
      discounted_returns = discount_rewards(rewards, self.gamma)
      _, values = self.policy(states)
      _, next_values = self.policy(next_states)
      # discounted_returns = bootstrapped_discount_rewards(rewards, self.gamma, done, next_values)
      advantages = ...; actor_loss = ...; critic_loss = ...
      loss = actor_loss + critic_loss
  \<close>
\<close>

definition compute_loss :: "('x, 'p, 'o) agent \<Rightarrow> ('x, 'p) rollout \<Rightarrow> exn + 'p scalar" where
  "compute_loss A R =
     (let discounted_returns = discount_rewards (r_rewards R) (gamma A) in
      bind_exn (policy A (Stacked (r_states R))) (\<lambda>(_, values).
      bind_exn (policy A (Stacked (r_next_states R))) (\<lambda>(_, next_values).
      bind_exn (advantages discounted_returns values) (\<lambda>advantages'.
      bind_exn (actor_loss (params A) (r_action_log_probs R) advantages') (\<lambda>actor_loss'.
      let critic_loss' = critic_loss values discounted_returns
      in Inr (\<lambda>\<theta>. actor_loss' \<theta> + critic_loss' \<theta>))))))"

text \<open>
  \<^verbatim>\<open>
      self.optimizer.zero_grad()
      loss.backward()
      self.optimizer.step()
      return
  \<close>
  The three calls together are the argument \<open>adam\<close>: from the loss as a function of the
  parameters, the current parameters and the optimizer's state, the new parameters and
  state, or an exception. An exception leaves the agent as it is at that statement: the
  buffer is whatever the statements before it made of it.
\<close>

type_synonym ('p, 'o) optimizer_step = "'p scalar \<Rightarrow> 'p \<Rightarrow> 'o \<Rightarrow> exn + 'p \<times> 'o"

definition update_policy ::
  "('p, 'o) optimizer_step \<Rightarrow> ('x, 'p, 'o) agent \<Rightarrow> (exn + unit) \<times> ('x, 'p, 'o) agent" where
  "update_policy adam A =
     (case drain A of
        Inl e \<Rightarrow> (Inl e, A)
      | Inr R \<Rightarrow>
          (let A' = clear A in
           case compute_loss A' R of
             Inl e \<Rightarrow> (Inl e, A')
           | Inr loss \<Rightarrow>
               (case adam loss (params A') (optimizer A') of
                  Inl e \<Rightarrow> (Inl e, A')
                | Inr (\<theta>', opt') \<Rightarrow> (Inr (), A'\<lparr>params := \<theta>', optimizer := opt'\<rparr>))))"

section \<open>The critic loss as the specification reads it\<close>

text \<open>
  The specification describes the critic loss as the mean over the steps of the
  distance between the value predicted at a step and the return of the same step, for
  one-dimensional values the mean of the absolute errors. This definition follows those
  words, to be compared with \<open>critic_loss\<close>, which follows the code.
\<close>

definition mean_absolute_error :: "'p tensor \<Rightarrow> real list \<Rightarrow> 'p scalar" where
  "mean_absolute_error values G =
     (\<lambda>\<theta>. (\<Sum>(v, g)\<leftarrow>zip values G. \<bar>v \<theta> - g\<bar>) / real (length G))"

section \<open>Concrete inputs\<close>

text \<open>
  A library whose layers return their input, a policy with one real parameter whose
  outputs are the parameter times the sum of the observation, a policy whose call
  raises, a stand-in for the optimizer that moves the parameter against the loss and
  counts its steps, a random draw that returns the means and advances the generator,
  an agent that has stored one transition, and one that has stored two transitions of
  reward \<open>0\<close> whose log-probabilities are constantly \<open>0\<close>. Further, a policy that
  raises \<^verbatim>\<open>ValueError\<close> on an observation with a negative entry and is the linear
  policy otherwise, and an agent that has stored two transitions of rewards \<open>18\<close> and
  \<open>100\<close>.
\<close>

definition identity_torch :: "(real list, real list \<times> real list) torch" where
  "identity_torch =
     \<lparr>nn_Linear = (\<lambda>_ _ x. Inr x), nn_LSTM = (\<lambda>_ _ x. Inr (x, x)), nn_ReLU = Inr,
      nn_Tanh = Inr, F_softplus = Inr, torch_zeros = (\<lambda>n. replicate n 0),
      add_scalar = (\<lambda>t c. map (\<lambda>x. x + c) t), torch_sum = (\<lambda>x _. Inr x),
      unsqueeze = (\<lambda>x _. x), squeeze = (\<lambda>x _. x), Normal = (\<lambda>m s. Inr (m, s))\<rparr>"

definition linear_policy :: "real list policy_input \<Rightarrow> exn + real normal \<times> real tensor" where
  "linear_policy inp =
     (case inp of
        Single x \<Rightarrow>
          Inr (\<lparr>loc = [\<lambda>\<theta>. \<theta> * sum_list x], scale = [\<lambda>\<theta>. 1]\<rparr>, [\<lambda>\<theta>. \<theta> * sum_list x])
      | Stacked xs \<Rightarrow>
          Inr (\<lparr>loc = map (\<lambda>x. (\<lambda>\<theta>. \<theta> * sum_list x)) xs, scale = map (\<lambda>x. (\<lambda>\<theta>. 1)) xs\<rparr>,
               map (\<lambda>x. (\<lambda>\<theta>. \<theta> * sum_list x)) xs))"

definition raising_policy :: "real list policy_input \<Rightarrow> exn + real normal \<times> real tensor" where
  "raising_policy inp = Inl ''AttributeError''"

definition descent_step :: "(real, nat) optimizer_step" where
  "descent_step loss \<theta> opt = Inr (\<theta> - loss \<theta> / 1000, Suc opt)"

definition fixed_draw :: "nat torch_normal" where
  "fixed_draw g m s = (m, Suc g)"

definition one_step_agent ::
  "(real list policy_input \<Rightarrow> exn + real normal \<times> real tensor) \<Rightarrow> (real list, real, nat) agent" where
  "one_step_agent pol = store_outcome (Agent_init pol 1 0) [1, 2] [3, 4] (\<lambda>\<theta>. \<theta>) 1 True"

definition two_step_agent :: "(real list, real, nat) agent" where
  "two_step_agent =
     store_outcome
       (store_outcome (Agent_init linear_policy 1 0)
          [2999999 / 1000000] [3999999 / 1000000] (\<lambda>\<theta>. 0) 0 False)
       [3999999 / 1000000] [0] (\<lambda>\<theta>. 0) 0 True"

definition picky_policy :: "real list policy_input \<Rightarrow> exn + real normal \<times> real tensor" where
  "picky_policy inp =
     (case inp of
        Single x \<Rightarrow>
          if list_ex (\<lambda>v. v < 0) x then Inl ''ValueError'' else linear_policy inp
      | Stacked xs \<Rightarrow>
          if list_ex (list_ex (\<lambda>v. v < 0)) xs then Inl ''ValueError'' else linear_policy inp)"

definition reward_agent :: "(real list, real, nat) agent" where
  "reward_agent =
     store_outcome
       (store_outcome (Agent_init linear_policy 1 0)
          [119999999 / 1000000] [120999999 / 1000000] (\<lambda>\<theta>. \<theta>) 18 False)
       [120999999 / 1000000] [0] (\<lambda>\<theta>. \<theta>) 100 True"

section \<open>Properties of the return estimators\<close>

lemma length_discount_loop:
  "length (discount_loop r \<gamma> k acc d) = length d"
  by (induction k arbitrary: acc d) (simp_all add: Let_def)

lemma discount_loop_above:
  "k \<le> t \<Longrightarrow> discount_loop r \<gamma> k acc d ! t = d ! t"
  by (induction k arbitrary: acc d) (simp_all add: Let_def)

lemma discount_loop_step:
  "t < k \<Longrightarrow> k \<le> length d \<Longrightarrow>
   discount_loop r \<gamma> k acc d ! t =
     r ! t + \<gamma> * (if Suc t < k then discount_loop r \<gamma> k acc d ! Suc t else acc)"
proof (induction k arbitrary: acc d)
  case 0
  then show ?case by simp
next
  case (Suc k)
  let ?a = "acc * \<gamma> + r ! k"
  let ?d = "d[k := ?a]"
  have unfold: "discount_loop r \<gamma> (Suc k) acc d = discount_loop r \<gamma> k ?a ?d"
    by (simp add: Let_def)
  have at_k: "discount_loop r \<gamma> k ?a ?d ! k = ?a"
    using Suc.prems by (simp add: discount_loop_above)
  show ?case
  proof (cases "t = k")
    case True
    then show ?thesis using at_k unfold by (simp add: mult.commute)
  next
    case False
    with Suc.prems have lt: "t < k" and le: "k \<le> length ?d" by simp_all
    have ih: "discount_loop r \<gamma> k ?a ?d ! t =
        r ! t + \<gamma> * (if Suc t < k then discount_loop r \<gamma> k ?a ?d ! Suc t else ?a)"
      by (rule Suc.IH [OF lt le])
    show ?thesis
    proof (cases "Suc t < k")
      case True
      then show ?thesis using ih unfold by simp
    next
      case False
      with lt have "Suc t = k" by simp
      then show ?thesis using ih unfold at_k by simp
    qed
  qed
qed

lemma discount_rewards_nth:
  "t < length r \<Longrightarrow>
   discount_rewards r \<gamma> ! t =
     r ! t + \<gamma> * (if Suc t < length r then discount_rewards r \<gamma> ! Suc t else 0)"
  unfolding discount_rewards_def by (rule discount_loop_step) simp_all

lemma length_discount_rewards: "length (discount_rewards r \<gamma>) = length r"
  by (simp add: discount_rewards_def length_discount_loop)

lemma discount_rewards_gamma_0: "discount_rewards r 0 = r"
  by (rule nth_equalityI) (simp_all add: length_discount_rewards discount_rewards_nth)

text \<open>
  Claim C1. For every reward sequence \<open>r\<close> of length \<open>n\<close> and every discount factor,
  \<open>discount_rewards\<close> returns a sequence \<open>G\<close> of length \<open>n\<close> with
  \<open>G[t] = r[t] + \<gamma> * G[t+1]\<close> for every \<open>t < n\<close>, where \<open>G[n]\<close> counts as \<open>0\<close>; so the
  last entry of \<open>G\<close> is the last reward, and with \<open>\<gamma> = 0\<close> the result is \<open>r\<close> itself.
\<close>

theorem discount_rewards_recurrence:
  "length (discount_rewards r \<gamma>) = length r \<and>
   (\<forall>t < length r.
      discount_rewards r \<gamma> ! t =
        r ! t + \<gamma> * (if Suc t < length r then discount_rewards r \<gamma> ! Suc t else 0)) \<and>
   (r \<noteq> [] \<longrightarrow> discount_rewards r \<gamma> ! (length r - 1) = r ! (length r - 1)) \<and>
   discount_rewards r 0 = r"
proof (intro conjI allI impI)
  show "length (discount_rewards r \<gamma>) = length r"
    by (rule length_discount_rewards)
  show "discount_rewards r \<gamma> ! t =
      r ! t + \<gamma> * (if Suc t < length r then discount_rewards r \<gamma> ! Suc t else 0)"
    if "t < length r" for t
    using that by (rule discount_rewards_nth)
  show "discount_rewards r \<gamma> ! (length r - 1) = r ! (length r - 1)" if "r \<noteq> []"
  proof -
    from that have "length r - 1 < length r" by simp
    from discount_rewards_nth [OF this, of \<gamma>] that show ?thesis by simp
  qed
  show "discount_rewards r 0 = r"
    by (rule discount_rewards_gamma_0)
qed

theorem discount_rewards_recurrence_witness:
  "discount_rewards [1, 1, 1] (1 / 2) = [7 / 4, 3 / 2, 1] \<and>
   length (discount_rewards [1, 1, 1] (1 / 2)) = 3 \<and>
   discount_rewards [1, 1, 1] (1 / 2) ! 0 = 1 + 1 / 2 * discount_rewards [1, 1, 1] (1 / 2) ! 1 \<and>
   discount_rewards [1, 1, 1] (1 / 2) ! 2 = 1 \<and>
   discount_rewards [1, 1, 1] 0 = [1, 1, 1]"
proof -
  have computed: "discount_rewards [1, 1, 1] (1 / 2) = [7 / 4, 3 / 2, 1]"
    by (simp add: discount_rewards_def numeral_3_eq_3)
  have "(0::nat) < length [1, 1, 1 :: real]" and "[1, 1, 1 :: real] \<noteq> []"
    by simp_all
  with discount_rewards_recurrence [of "[1, 1, 1]" "1 / 2"] computed
    discount_rewards_recurrence [of "[1, 1, 1]" 0]
  show ?thesis by simp
qed

subsection \<open>The bootstrapped variant\<close>

lemma bootstrapped_loop_ok:
  "k \<le> length out \<Longrightarrow>
   \<forall>t<k. t < length done \<and> (done ! t \<or> t < length next_values) \<Longrightarrow>
   bootstrapped_loop r \<gamma> done next_values k out =
     Inr (map (\<lambda>t. r ! t + (if done ! t then 0 else \<gamma> * next_values ! t)) [0..<k]
          @ drop k out)"
proof (induction k arbitrary: out)
  case 0
  then show ?case by simp
next
  case (Suc k)
  from Suc.prems have k: "k < length out" "k < length done"
    "done ! k \<or> k < length next_values" by simp_all
  have tail: "drop k (out[k := v]) = v # drop (Suc k) out" for v
    using k(1) by (simp add: Cons_nth_drop_Suc [symmetric])
  have below: "\<forall>t<k. t < length done \<and> (done ! t \<or> t < length next_values)"
    using Suc.prems by simp
  have ih: "bootstrapped_loop r \<gamma> done next_values k (out[k := v]) =
     Inr (map (\<lambda>t. r ! t + (if done ! t then 0 else \<gamma> * next_values ! t)) [0..<k]
          @ v # drop (Suc k) out)" for v
    using Suc.IH [of "out[k := v]"] k(1) below by (simp add: tail)
  show ?case using k ih by (auto simp: Let_def)
qed

lemma bootstrapped_loop_error:
  "\<exists>t<k. length done \<le> t \<or> (\<not> done ! t \<and> length next_values \<le> t) \<Longrightarrow>
   bootstrapped_loop r \<gamma> done next_values k out = Inl ''IndexError''"
proof (induction k arbitrary: out)
  case 0
  then show ?case by simp
next
  case (Suc k)
  show ?case
  proof (cases "length done \<le> k \<or> (\<not> done ! k \<and> length next_values \<le> k)")
    case True
    then show ?thesis by auto
  next
    case False
    with Suc.prems
    have "\<exists>t<k. length done \<le> t \<or> (\<not> done ! t \<and> length next_values \<le> t)"
      by (metis less_Suc_eq)
    then have "bootstrapped_loop r \<gamma> done next_values k out' = Inl ''IndexError''" for out'
      by (rule Suc.IH)
    with False show ?thesis by (auto simp: Let_def)
  qed
qed

lemma bootstrapped_discount_rewards_cases:
  "bootstrapped_discount_rewards r \<gamma> done next_values =
     (if \<exists>t<length r. length done \<le> t \<or> (\<not> done ! t \<and> length next_values \<le> t)
      then Inl ''IndexError''
      else Inr (map (\<lambda>t. r ! t + (if done ! t then 0 else \<gamma> * next_values ! t))
                  [0..<length r]))"
proof (cases "\<exists>t<length r. length done \<le> t \<or> (\<not> done ! t \<and> length next_values \<le> t)")
  case True
  then show ?thesis
    unfolding bootstrapped_discount_rewards_def by (simp add: bootstrapped_loop_error)
next
  case False
  then have "\<forall>t<length r. t < length done \<and> (done ! t \<or> t < length next_values)"
    by (meson not_le)
  from bootstrapped_loop_ok [OF _ this, of "replicate (length r) 0" r \<gamma>] False
  show ?thesis
    unfolding bootstrapped_discount_rewards_def by simp
qed

text \<open>
  Claim C2. For rewards, done flags and next-value estimates of equal length,
  \<open>bootstrapped_discount_rewards\<close> is step-local: entry \<open>t\<close> of the result is
  \<open>r[t] + 0\<close> where \<open>done[t]\<close> holds and \<open>r[t] + \<gamma> * next_values[t]\<close> otherwise, a
  function of the inputs at step \<open>t\<close> alone, with no accumulator carried from one step
  to another. For rewards \<open>[1,1,1]\<close>, done \<open>[False,False,True]\<close>, next values \<open>[5,5,5]\<close>
  and \<open>\<gamma> = 0.9\<close> the result is \<open>[5.5, 5.5, 1.0]\<close>.
\<close>

theorem bootstrapped_discount_rewards_step_local:
  "(length done = length r \<and> length next_values = length r \<longrightarrow>
      bootstrapped_discount_rewards r \<gamma> done next_values =
        Inr (map (\<lambda>t. if done ! t then r ! t + 0 else r ! t + \<gamma> * next_values ! t)
               [0..<length r])) \<and>
   bootstrapped_discount_rewards [1, 1, 1] (9 / 10) [False, False, True] [5, 5, 5] =
     Inr [11 / 2, 11 / 2, 1]"
proof (intro conjI impI)
  assume "length done = length r \<and> length next_values = length r"
  then have "\<not> (\<exists>t<length r. length done \<le> t \<or> (\<not> done ! t \<and> length next_values \<le> t))"
    by auto
  then have "bootstrapped_discount_rewards r \<gamma> done next_values =
      Inr (map (\<lambda>t. r ! t + (if done ! t then 0 else \<gamma> * next_values ! t)) [0..<length r])"
    by (simp only: bootstrapped_discount_rewards_cases if_False)
  also have "(\<lambda>t. r ! t + (if done ! t then 0 else \<gamma> * next_values ! t)) =
      (\<lambda>t. if done ! t then r ! t + 0 else r ! t + \<gamma> * next_values ! t)"
    by auto
  finally show "bootstrapped_discount_rewards r \<gamma> done next_values =
      Inr (map (\<lambda>t. if done ! t then r ! t + 0 else r ! t + \<gamma> * next_values ! t)
             [0..<length r])" .
next
  show "bootstrapped_discount_rewards [1, 1, 1] (9 / 10) [False, False, True] [5, 5, 5] =
      Inr [11 / 2, 11 / 2, 1]"
    by (simp add: bootstrapped_discount_rewards_def numeral_3_eq_3)
qed

theorem bootstrapped_discount_rewards_step_local_witness:
  "bootstrapped_discount_rewards [2, 3] (1 / 2) [True, False] [8, 4] = Inr [2, 5]"
proof -
  have "length [True, False] = length [2, 3 :: real] \<and>
      length [8, 4 :: real] = length [2, 3 :: real]"
    by simp
  with bootstrapped_discount_rewards_step_local
    [of "[True, False]" "[2, 3]" "[8, 4]" "1 / 2"]
  have "bootstrapped_discount_rewards [2, 3] (1 / 2) [True, False] [8, 4] =
      Inr (map (\<lambda>t. if [True, False] ! t then [2, 3] ! t + 0
                      else [2, 3] ! t + 1 / 2 * [8, 4] ! t) [0..<length [2, 3 :: real]])"
    by blast
  also have "[0..<length [2, 3 :: real]] = [0, 1]"
    by (simp add: upt_rec)
  finally show ?thesis by simp
qed

text \<open>
  Claim C9, as the code has it. The return estimators hold no length check and no
  \<^verbatim>\<open>ShapeMismatch\<close> error. \<open>discount_rewards\<close> takes one sequence and cannot fail.
  \<open>bootstrapped_discount_rewards\<close> returns normally on inputs of equal length; it fails,
  with Python's \<^verbatim>\<open>IndexError\<close>, exactly when \<open>done\<close> is shorter than the rewards or
  \<open>next_values\<close> has no entry at some step \<open>t\<close> below the number of rewards where
  \<open>done[t]\<close> is false. Entries of \<open>done\<close> and \<open>next_values\<close> beyond the number of rewards are
  ignored without any error.
\<close>

theorem bootstrapped_discount_rewards_failure:
  "(length done = length r \<and> length next_values = length r \<longrightarrow>
      (\<exists>G. bootstrapped_discount_rewards r \<gamma> done next_values = Inr G)) \<and>
   (bootstrapped_discount_rewards r \<gamma> done next_values = Inl e) =
     (e = ''IndexError'' \<and>
      (length done < length r \<or>
       (\<exists>t<length r. \<not> done ! t \<and> length next_values \<le> t)))"
proof -
  have "(\<exists>t<length r. length done \<le> t \<or> (\<not> done ! t \<and> length next_values \<le> t)) =
      (length done < length r \<or> (\<exists>t<length r. \<not> done ! t \<and> length next_values \<le> t))"
    by (metis leD le_less_trans not_le_imp_less order_refl)
  then show ?thesis
    by (auto simp: bootstrapped_discount_rewards_cases)
qed

theorem bootstrapped_discount_rewards_failure_witness:
  "bootstrapped_discount_rewards [1, 1] (9 / 10) [True] [5, 5] = Inl ''IndexError'' \<and>
   bootstrapped_discount_rewards [1, 1] (9 / 10) [True, False] [5] = Inl ''IndexError''"
proof -
  have "length [True] < length [1, 1 :: real]"
    by simp
  moreover have "\<exists>t<length [1, 1 :: real]. \<not> [True, False] ! t \<and> length [5 :: real] \<le> t"
    by (rule exI [of _ 1]) simp
  ultimately show ?thesis
    using bootstrapped_discount_rewards_failure [of "[True]" "[1, 1]" "[5, 5]" "9 / 10" "''IndexError''"]
      bootstrapped_discount_rewards_failure [of "[True, False]" "[1, 1]" "[5]" "9 / 10" "''IndexError''"]
    by blast
qed

theorem bootstrapped_discount_rewards_mismatch_counterexample:
  "length [1 :: real] \<noteq> length [True, False] \<and>
   length [1 :: real] \<noteq> length [5, 6, 7 :: real] \<and>
   bootstrapped_discount_rewards [1] (9 / 10) [True, False] [5, 6, 7] = Inr [1]"
  by (simp add: bootstrapped_discount_rewards_def)

section \<open>Properties of the policy network\<close>

lemma getattr_fc3_critic:
  "getattr (Policy_init T state_space action_space) ''fc3_critic'' = Inl ''AttributeError''"
  by (simp add: getattr_def Policy_init_def)

text \<open>
  Claim C3 says that \<open>Policy.forward\<close> returns, for every observation input, the pair of
  the action distribution and the value estimate, and does not fail. The code does the
  opposite on every input: the critic head is read as \<^verbatim>\<open>self.fc3_critic\<close>, an attribute
  that \<^verbatim>\<open>__init__\<close> never sets (it sets \<^verbatim>\<open>fc2_critic\<close>), so a call that gets that far raises
  \<^verbatim>\<open>AttributeError\<close>, and a call that does not has raised before. No call of \<open>forward\<close>
  returns, whatever the layers do; with layers that return their input the exception
  is the \<^verbatim>\<open>AttributeError\<close>.
\<close>

theorem forward_raises:
  "forward T (Policy_init T state_space action_space) x \<noteq> Inr res \<and>
   forward identity_torch (Policy_init identity_torch 3 2) [1, 2, 3] = Inl ''AttributeError''"
proof
  show "forward T (Policy_init T state_space action_space) x \<noteq> Inr res"
    unfolding forward_def
    by (auto simp: bind_exn_def getattr_fc3_critic split: sum.splits prod.splits)
  show "forward identity_torch (Policy_init identity_torch 3 2) [1, 2, 3] =
      Inl ''AttributeError''"
    by (simp add: forward_def Policy_init_def getattr_def bind_exn_def identity_torch_def)
qed

section \<open>Properties of the agent\<close>

subsection \<open>Draining and clearing the buffer\<close>

lemma drain_Inr:
  "drain A = Inr R \<Longrightarrow>
   action_log_probs A \<noteq> [] \<and> states A \<noteq> [] \<and> next_states A \<noteq> [] \<and> rewards A \<noteq> [] \<and>
   R = \<lparr>r_action_log_probs = action_log_probs A, r_states = states A,
        r_next_states = next_states A, r_rewards = rewards A, r_done = done_flags A\<rparr>"
  by (auto simp: drain_def bind_exn_def torch_stack_def split: if_splits)

lemma drain_empty:
  "action_log_probs A = [] \<Longrightarrow> drain A = Inl ''RuntimeError''"
  by (simp add: drain_def bind_exn_def torch_stack_def)

lemma update_policy_agent:
  assumes "drain A = Inr R"
  shows "\<exists>\<theta> opt. snd (update_policy adam A) = (clear A)\<lparr>params := \<theta>, optimizer := opt\<rparr>"
proof -
  have same: "clear A = (clear A)\<lparr>params := params (clear A), optimizer := optimizer (clear A)\<rparr>"
    by simp
  show ?thesis
  proof (cases "compute_loss (clear A) R")
    case (Inl e)
    with assms have "snd (update_policy adam A) = clear A"
      by (simp add: update_policy_def)
    with same show ?thesis by metis
  next
    case loss: (Inr loss)
    show ?thesis
    proof (cases "adam loss (params (clear A)) (optimizer (clear A))")
      case (Inl e)
      with loss assms have "snd (update_policy adam A) = clear A"
        by (simp add: update_policy_def)
      with same show ?thesis by metis
    next
      case (Inr p)
      with loss assms
      have "snd (update_policy adam A) = (clear A)\<lparr>params := fst p, optimizer := snd p\<rparr>"
        by (simp add: update_policy_def split: prod.splits)
      then show ?thesis by blast
    qed
  qed
qed

subsection \<open>The agent with one stored transition\<close>

lemma drain_one:
  "drain (one_step_agent pol) =
     Inr \<lparr>r_action_log_probs = [\<lambda>\<theta>. \<theta>], r_states = [[1, 2]], r_next_states = [[3, 4]],
          r_rewards = [1], r_done = [True]\<rparr>"
  by (simp add: drain_def one_step_agent_def store_outcome_def Agent_init_def torch_stack_def
      bind_exn_def)

lemma clear_one: "clear (one_step_agent pol) = Agent_init pol 1 0"
  by (simp add: one_step_agent_def store_outcome_def Agent_init_def clear_def)

lemma discount_one: "discount_rewards [1] (99 / 100) = [1]"
  by (simp add: discount_rewards_def)

lemma loss_one:
  "compute_loss (Agent_init linear_policy 1 0)
     \<lparr>r_action_log_probs = [\<lambda>\<theta>. \<theta>], r_states = [[1, 2]], r_next_states = ns,
      r_rewards = [1], r_done = d\<rparr> =
   Inr (\<lambda>\<theta>. - (\<theta> * (1 - 3)) + \<bar>\<theta> * 3 - 1 + eps\<bar>)"
  by (simp add: compute_loss_def Agent_init_def linear_policy_def discount_one bind_exn_def
      advantages_def broadcast_def as_tensor_def actor_loss_def detach_def
      critic_loss_def mean_def pairwise_distance_def)

lemma update_one:
  "update_policy descent_step (one_step_agent linear_policy) =
     (Inr (), Agent_init linear_policy (995999999 / 1000000000) 1)"
  by (simp add: update_policy_def drain_one clear_one loss_one descent_step_def)
    (simp add: Agent_init_def eps_def)

lemma update_one_raising:
  "update_policy descent_step (one_step_agent raising_policy) =
     (Inl ''AttributeError'', Agent_init raising_policy 1 0)"
  by (simp add: update_policy_def drain_one clear_one)
    (simp add: compute_loss_def Agent_init_def raising_policy_def bind_exn_def)

text \<open>
  Claim C7. \<open>update_policy\<close> empties the five buffer sequences right after it has read
  them and before it computes anything from them: once the drain (the four stacks and
  the tensor of done flags) has gone through, the agent that the call leaves behind has
  all five sequences empty, whether the policy call, the losses or the optimizer step
  then succeed or raise.
\<close>

theorem update_policy_clears_buffer:
  "drain A = Inr R \<Longrightarrow>
   states (snd (update_policy adam A)) = [] \<and>
   next_states (snd (update_policy adam A)) = [] \<and>
   action_log_probs (snd (update_policy adam A)) = [] \<and>
   rewards (snd (update_policy adam A)) = [] \<and>
   done_flags (snd (update_policy adam A)) = []"
proof -
  assume "drain A = Inr R"
  then obtain \<theta> opt
    where "snd (update_policy adam A) = (clear A)\<lparr>params := \<theta>, optimizer := opt\<rparr>"
    using update_policy_agent by blast
  then show ?thesis by (simp add: clear_def)
qed

theorem update_policy_clears_buffer_witness:
  "fst (update_policy descent_step (one_step_agent raising_policy)) = Inl ''AttributeError'' \<and>
   states (snd (update_policy descent_step (one_step_agent raising_policy))) = [] \<and>
   next_states (snd (update_policy descent_step (one_step_agent raising_policy))) = [] \<and>
   action_log_probs (snd (update_policy descent_step (one_step_agent raising_policy))) = [] \<and>
   rewards (snd (update_policy descent_step (one_step_agent raising_policy))) = [] \<and>
   done_flags (snd (update_policy descent_step (one_step_agent raising_policy))) = [] \<and>
   fst (update_policy descent_step (one_step_agent linear_policy)) = Inr () \<and>
   states (snd (update_policy descent_step (one_step_agent linear_policy))) = [] \<and>
   done_flags (snd (update_policy descent_step (one_step_agent linear_policy))) = []"
  using update_policy_clears_buffer [OF drain_one, of descent_step raising_policy]
    update_policy_clears_buffer [OF drain_one, of descent_step linear_policy]
  by (simp add: update_one update_one_raising)

text \<open>
  Claim C8, as the code has it. \<open>update_policy\<close> holds no check for an empty buffer and
  no \<^verbatim>\<open>EmptyRollout\<close> error. With zero buffered transitions its first statement,
  \<^verbatim>\<open>torch.stack\<close> of the empty list of log-probabilities, raises \<^verbatim>\<open>RuntimeError\<close>. Nothing has
  been computed or changed by then: no loss is formed, and the agent the caller gets
  back is the agent before the call, its buffer still empty and its parameters and
  optimizer untouched.
\<close>

theorem update_policy_empty_buffer:
  "states A = [] \<and> next_states A = [] \<and> action_log_probs A = [] \<and> rewards A = [] \<and>
     done_flags A = [] \<Longrightarrow>
   update_policy adam A = (Inl ''RuntimeError'', A)"
  by (simp add: update_policy_def drain_empty)

theorem update_policy_empty_buffer_witness:
  "update_policy descent_step (Agent_init linear_policy 1 0) =
     (Inl ''RuntimeError'', Agent_init linear_policy 1 0)"
proof -
  let ?A = "Agent_init linear_policy 1 0 :: (real list, real, nat) agent"
  have "states ?A = [] \<and> next_states ?A = [] \<and> action_log_probs ?A = [] \<and> rewards ?A = [] \<and>
      done_flags ?A = []"
    by (simp add: Agent_init_def)
  then show ?thesis
    by (rule update_policy_empty_buffer)
qed

theorem update_policy_empty_buffer_counterexample:
  "fst (update_policy descent_step
         (Agent_init linear_policy 1 0 :: (real list, real, nat) agent)) \<noteq>
     Inl ''EmptyRollout'' \<and>
   fst (update_policy descent_step
         (Agent_init linear_policy 1 0 :: (real list, real, nat) agent)) =
     Inl ''RuntimeError''"
proof -
  have "drain (Agent_init linear_policy 1 0 :: (real list, real, nat) agent) =
      Inl ''RuntimeError''"
    by (rule drain_empty) (simp add: Agent_init_def)
  then show ?thesis
    by (simp add: update_policy_def)
qed

subsection \<open>Action selection\<close>

text \<open>
  Claim C10. With \<open>evaluation\<close> true, \<open>get_action\<close> returns the mean of the distribution that
  the policy call gives for the state, and no log-probability. The result does not
  depend on any random source: it is the same for every state of the random generator
  and every sampling function, for any two agents that hold the same policy, and the
  generator is left as it was.
\<close>

theorem get_action_evaluation:
  "(policy A (Single s) = Inr (d, v) \<longrightarrow>
      get_action draw A g s True = (Inr (loc d, None), g)) \<and>
   (policy A = policy B \<longrightarrow>
      fst (get_action draw A g s True) = fst (get_action draw' B g' s True)) \<and>
   snd (get_action draw A g s True) = g"
  by (auto simp: get_action_def split: sum.splits prod.splits)

theorem get_action_evaluation_witness:
  "get_action fixed_draw (one_step_agent linear_policy) 7 [1, 2] True =
     (Inr ([\<lambda>\<theta>. \<theta> * 3], None), 7) \<and>
   fst (get_action fixed_draw (one_step_agent linear_policy) 7 [1, 2] True) =
     fst (get_action (\<lambda>g m s. (s, g + 2)) (Agent_init linear_policy 5 (0 :: nat)) (8 :: nat) [1, 2] True)"
proof -
  have call: "policy (one_step_agent linear_policy) (Single [1, 2]) =
      Inr (\<lparr>loc = [\<lambda>\<theta>. \<theta> * 3], scale = [\<lambda>\<theta>. 1]\<rparr>, [\<lambda>\<theta>. \<theta> * 3])"
    by (simp add: one_step_agent_def store_outcome_def Agent_init_def linear_policy_def)
  have same: "policy (one_step_agent linear_policy) =
      policy (Agent_init linear_policy 5 0 :: (real list, real, nat) agent)"
    by (simp add: one_step_agent_def store_outcome_def Agent_init_def)
  note inst = get_action_evaluation [of "one_step_agent linear_policy" "[1, 2]"
      "\<lparr>loc = [\<lambda>\<theta>. \<theta> * 3], scale = [\<lambda>\<theta>. 1]\<rparr>" "[\<lambda>\<theta>. \<theta> * 3]" fixed_draw 7
      "Agent_init linear_policy 5 (0 :: nat)" "\<lambda>g m s. (s, g + 2)" "8 :: nat"]
  from inst call
  have mean_returned: "get_action fixed_draw (one_step_agent linear_policy) 7 [1, 2] True =
      (Inr (loc \<lparr>loc = [\<lambda>\<theta>. \<theta> * 3], scale = [\<lambda>\<theta>. 1 :: real]\<rparr>, None), 7)"
    by blast
  from inst same
  have "fst (get_action fixed_draw (one_step_agent linear_policy) 7 [1, 2] True) =
      fst (get_action (\<lambda>g m s. (s, g + 2)) (Agent_init linear_policy 5 (0 :: nat)) (8 :: nat)
             [1, 2] True)"
    by blast
  with mean_returned show ?thesis
    by (simp del: fst_conv)
qed

subsection \<open>The losses\<close>

lemma sum_list_map2_nth:
  assumes len: "length xs = length ys"
  shows "(\<Sum>z\<leftarrow>map2 f xs ys. h z) = (\<Sum>i<length xs. h (f (xs ! i) (ys ! i)))"
proof -
  let ?zs = "map h (map2 f xs ys)"
  have "sum_list ?zs = (\<Sum>i = 0..<length ?zs. ?zs ! i)"
    by (rule sum_list_sum_nth)
  also have "\<dots> = (\<Sum>i = 0..<length xs. h (f (xs ! i) (ys ! i)))"
    using len by (intro sum.cong) simp_all
  finally show ?thesis
    unfolding lessThan_atLeast0 .
qed

lemma advantages_elementwise:
  "length values = length G \<Longrightarrow>
   advantages G values = Inr (map2 (\<lambda>g v. (\<lambda>\<theta>. g - v \<theta>)) G values)"
  by (simp add: advantages_def broadcast_def as_tensor_def zip_map1 case_prod_unfold)

lemma actor_loss_elementwise:
  assumes "length lps = length G" and "length values = length G"
  shows "actor_loss \<theta>0 lps (map2 (\<lambda>g v. (\<lambda>\<theta>. g - v \<theta>)) G values) =
     Inr (\<lambda>\<theta>. - ((\<Sum>i<length G. (lps ! i) \<theta> * (G ! i - (values ! i) \<theta>0)) / real (length G)))"
proof -
  let ?adv = "map2 (\<lambda>g v. (\<lambda>\<theta>. g - v \<theta>)) G values"
  have len: "length lps = length (detach \<theta>0 ?adv)"
    using assms by (simp add: detach_def)
  have nth: "i < length G \<Longrightarrow> (detach \<theta>0 ?adv ! i) \<theta> = G ! i - (values ! i) \<theta>0" for i \<theta>
    using assms by (simp add: detach_def)
  have "(\<Sum>f\<leftarrow>map2 (\<lambda>l a. (\<lambda>\<theta>'. l \<theta>' * a \<theta>')) lps (detach \<theta>0 ?adv). f \<theta>) =
      (\<Sum>i<length G. (lps ! i) \<theta> * (G ! i - (values ! i) \<theta>0))" for \<theta>
    using sum_list_map2_nth [OF len, of "\<lambda>f. f \<theta>" "\<lambda>l a. (\<lambda>\<theta>'. l \<theta>' * a \<theta>')"] assms
    by (simp add: nth)
  then show ?thesis
    using len assms by (simp add: actor_loss_def broadcast_def bind_exn_def mean_def)
qed

lemma actor_loss_of_advantages:
  assumes "length lps = length G" and "length values = length G"
  shows "bind_exn (advantages G values) (actor_loss \<theta>0 lps) =
     Inr (\<lambda>\<theta>. - ((\<Sum>i<length G. (lps ! i) \<theta> * (G ! i - (values ! i) \<theta>0)) / real (length G)))"
  using assms by (simp add: advantages_elementwise actor_loss_elementwise bind_exn_def)

lemma compute_loss_returns:
  assumes "policy A (Stacked (r_states R)) = Inr (d, values)"
    and "policy A (Stacked (r_next_states R)) = Inr (d', next_values)"
    and "length (r_action_log_probs R) = length (r_rewards R)"
    and "length values = length (r_rewards R)"
  shows "compute_loss A R =
     Inr (\<lambda>\<theta>. - ((\<Sum>i<length (r_rewards R).
                      (r_action_log_probs R ! i) \<theta> *
                      (discount_rewards (r_rewards R) (gamma A) ! i - (values ! i) (params A)))
                  / real (length (r_rewards R)))
             + critic_loss values (discount_rewards (r_rewards R) (gamma A)) \<theta>)"
proof -
  let ?G = "discount_rewards (r_rewards R) (gamma A)"
  have len: "length (r_action_log_probs R) = length ?G" "length values = length ?G"
    using assms by (simp_all add: length_discount_rewards)
  have adv: "advantages ?G values = Inr (map2 (\<lambda>g v. (\<lambda>\<theta>. g - v \<theta>)) ?G values)"
    using len by (simp add: advantages_elementwise)
  have act: "actor_loss (params A) (r_action_log_probs R)
        (map2 (\<lambda>g v. (\<lambda>\<theta>. g - v \<theta>)) ?G values) =
      Inr (\<lambda>\<theta>. - ((\<Sum>i<length ?G. (r_action_log_probs R ! i) \<theta> *
                                     (?G ! i - (values ! i) (params A)))
                 / real (length ?G)))"
    using len by (rule actor_loss_elementwise)
  show ?thesis
    unfolding compute_loss_def Let_def
    by (simp add: assms(1,2) adv act bind_exn_def length_discount_rewards)
qed

text \<open>
  Claim C5. In \<open>update_policy\<close>, with one log-probability and one value for each of the
  \<open>N\<close> steps, the advantages are \<open>G - values\<close> entry by entry, and the actor loss is
  \<open>- mean (action_log_probs * advantages)\<close> with the advantages detached: as a function
  of the parameters it contains the values only as the numbers they have at the current
  parameters \<open>\<theta>0\<close>. So no gradient of the actor loss runs through the critic: two value
  tensors with the same current numbers give the same actor loss, however they vary
  with the parameters. The loss that \<open>update_policy\<close> hands to the optimizer is this actor
  loss, at the agent's parameters, plus the critic loss.
\<close>

theorem actor_loss_detached:
  "(length lps = length G \<and> length values = length G \<longrightarrow>
      advantages G values = Inr (map2 (\<lambda>g v. (\<lambda>\<theta>. g - v \<theta>)) G values) \<and>
      bind_exn (advantages G values) (actor_loss \<theta>0 lps) =
        Inr (\<lambda>\<theta>. - ((\<Sum>i<length G. (lps ! i) \<theta> * (G ! i - (values ! i) \<theta>0))
                       / real (length G)))) \<and>
   (length lps = length G \<and> length values = length G \<and>
      map (\<lambda>v. v \<theta>0) values' = map (\<lambda>v. v \<theta>0) values \<longrightarrow>
      bind_exn (advantages G values') (actor_loss \<theta>0 lps) =
        bind_exn (advantages G values) (actor_loss \<theta>0 lps)) \<and>
   (policy A (Stacked (r_states R)) = Inr (d, critic_values) \<and>
    policy A (Stacked (r_next_states R)) = Inr (d', next_values) \<and>
    length (r_action_log_probs R) = length (r_rewards R) \<and>
    length critic_values = length (r_rewards R) \<longrightarrow>
      compute_loss A R =
        Inr (\<lambda>\<theta>. - ((\<Sum>i<length (r_rewards R).
                         (r_action_log_probs R ! i) \<theta> *
                         (discount_rewards (r_rewards R) (gamma A) ! i -
                          (critic_values ! i) (params A)))
                     / real (length (r_rewards R)))
                + critic_loss critic_values (discount_rewards (r_rewards R) (gamma A)) \<theta>))"
proof (intro conjI impI)
  assume a: "length lps = length G \<and> length values = length G"
  then show "advantages G values = Inr (map2 (\<lambda>g v. (\<lambda>\<theta>. g - v \<theta>)) G values)"
    by (simp add: advantages_elementwise)
  from a show "bind_exn (advantages G values) (actor_loss \<theta>0 lps) =
      Inr (\<lambda>\<theta>. - ((\<Sum>i<length G. (lps ! i) \<theta> * (G ! i - (values ! i) \<theta>0)) / real (length G)))"
    by (simp only: actor_loss_of_advantages)
next
  assume a: "length lps = length G \<and> length values = length G \<and>
      map (\<lambda>v. v \<theta>0) values' = map (\<lambda>v. v \<theta>0) values"
  then have len': "length values' = length G"
    by (metis length_map)
  have "(values' ! i) \<theta>0 = (values ! i) \<theta>0" if "i < length G" for i
  proof -
    from that len' have i': "i < length values'" by simp
    from that a have i: "i < length values" by simp
    have "(values' ! i) \<theta>0 = map (\<lambda>v. v \<theta>0) values' ! i"
      by (rule nth_map [OF i', symmetric])
    also from a have "\<dots> = map (\<lambda>v. v \<theta>0) values ! i"
      by (rule arg_cong [OF conjunct2 [OF conjunct2]])
    also have "\<dots> = (values ! i) \<theta>0"
      by (rule nth_map [OF i])
    finally show ?thesis .
  qed
  then have "(\<Sum>i<length G. (lps ! i) \<theta> * (G ! i - (values' ! i) \<theta>0)) =
      (\<Sum>i<length G. (lps ! i) \<theta> * (G ! i - (values ! i) \<theta>0))" for \<theta>
    by (intro sum.cong) simp_all
  with a len' show "bind_exn (advantages G values') (actor_loss \<theta>0 lps) =
      bind_exn (advantages G values) (actor_loss \<theta>0 lps)"
    by (simp add: actor_loss_of_advantages)
next
  assume "policy A (Stacked (r_states R)) = Inr (d, critic_values) \<and>
    policy A (Stacked (r_next_states R)) = Inr (d', next_values) \<and>
    length (r_action_log_probs R) = length (r_rewards R) \<and>
    length critic_values = length (r_rewards R)"
  then show "compute_loss A R =
      Inr (\<lambda>\<theta>. - ((\<Sum>i<length (r_rewards R).
                       (r_action_log_probs R ! i) \<theta> *
                       (discount_rewards (r_rewards R) (gamma A) ! i -
                        (critic_values ! i) (params A)))
                   / real (length (r_rewards R)))
              + critic_loss critic_values (discount_rewards (r_rewards R) (gamma A)) \<theta>)"
    by (intro compute_loss_returns) simp_all
qed

theorem actor_loss_detached_witness:
  "advantages [1, 2] [\<lambda>\<theta>. 3 * \<theta>, \<lambda>\<theta>. \<theta>\<^sup>2] = Inr [\<lambda>\<theta>. 1 - 3 * \<theta>, \<lambda>\<theta>. 2 - \<theta>\<^sup>2] \<and>
   bind_exn (advantages [1, 2] [\<lambda>\<theta>. 3 * \<theta>, \<lambda>\<theta>. \<theta>\<^sup>2]) (actor_loss (1 :: real) [\<lambda>\<theta>. \<theta>, \<lambda>\<theta>. 5]) =
     Inr (\<lambda>\<theta>. - ((\<theta> * (1 - 3) + 5 * (2 - 1)) / 2)) \<and>
   bind_exn (advantages [1, 2] [\<lambda>\<theta>. 3, \<lambda>\<theta>. \<theta>]) (actor_loss (1 :: real) [\<lambda>\<theta>. \<theta>, \<lambda>\<theta>. 5]) =
     bind_exn (advantages [1, 2] [\<lambda>\<theta>. 3 * \<theta>, \<lambda>\<theta>. \<theta>\<^sup>2]) (actor_loss (1 :: real) [\<lambda>\<theta>. \<theta>, \<lambda>\<theta>. 5]) \<and>
   compute_loss (Agent_init linear_policy 1 (0 :: nat))
     \<lparr>r_action_log_probs = [\<lambda>\<theta>. \<theta>], r_states = [[1, 2]], r_next_states = [[3, 4]],
      r_rewards = [1], r_done = [True]\<rparr> =
     Inr (\<lambda>\<theta>. - (\<theta> * (1 - 3)) + critic_loss [\<lambda>\<theta>. \<theta> * 3] [1] \<theta>)"
proof -
  let ?lps = "[\<lambda>\<theta>. \<theta>, \<lambda>\<theta>. 5] :: real tensor"
  let ?vs = "[\<lambda>\<theta>. 3 * \<theta>, \<lambda>\<theta>. \<theta>\<^sup>2] :: real tensor"
  let ?ws = "[\<lambda>\<theta>. 3, \<lambda>\<theta>. \<theta>] :: real tensor"
  let ?A = "Agent_init linear_policy 1 (0 :: nat) :: (real list, real, nat) agent"
  let ?R = "\<lparr>r_action_log_probs = [\<lambda>\<theta>. \<theta>], r_states = [[1, 2]], r_next_states = [[3, 4]],
      r_rewards = [1], r_done = [True]\<rparr> :: (real list, real) rollout"
  let ?d = "\<lparr>loc = [\<lambda>\<theta>. \<theta> * 3], scale = [\<lambda>\<theta>. 1]\<rparr> :: real normal"
  let ?d' = "\<lparr>loc = [\<lambda>\<theta>. \<theta> * 7], scale = [\<lambda>\<theta>. 1]\<rparr> :: real normal"
  note inst = actor_loss_detached
    [of ?lps "[1, 2]" ?vs 1 ?ws ?A ?R ?d "[\<lambda>\<theta>. \<theta> * 3]" ?d' "[\<lambda>\<theta>. \<theta> * 7]"]
  have lens: "length ?lps = length [1, 2 :: real] \<and> length ?vs = length [1, 2 :: real]"
    by simp
  have agree: "map (\<lambda>v. v 1) ?ws = map (\<lambda>v. v 1) ?vs"
    by simp
  have calls: "policy ?A (Stacked (r_states ?R)) = Inr (?d, [\<lambda>\<theta>. \<theta> * 3]) \<and>
      policy ?A (Stacked (r_next_states ?R)) = Inr (?d', [\<lambda>\<theta>. \<theta> * 7]) \<and>
      length (r_action_log_probs ?R) = length (r_rewards ?R) \<and>
      length [\<lambda>\<theta> :: real. \<theta> * 3] = length (r_rewards ?R)"
    by (simp add: Agent_init_def linear_policy_def)
  from inst lens
  have "advantages [1, 2] ?vs = Inr (map2 (\<lambda>g v. (\<lambda>\<theta>. g - v \<theta>)) [1, 2] ?vs)"
    and "bind_exn (advantages [1, 2] ?vs) (actor_loss 1 ?lps) =
      Inr (\<lambda>\<theta>. - ((\<Sum>i<length [1, 2 :: real]. (?lps ! i) \<theta> * ([1, 2] ! i - (?vs ! i) 1))
                     / real (length [1, 2 :: real])))"
    by blast+
  moreover from inst lens agree
  have "bind_exn (advantages [1, 2] ?ws) (actor_loss 1 ?lps) =
      bind_exn (advantages [1, 2] ?vs) (actor_loss 1 ?lps)"
    by blast
  moreover have "{..<2 :: nat} = {0, 1}"
    by auto
  moreover from inst calls
  have "compute_loss ?A ?R =
      Inr (\<lambda>\<theta>. - ((\<Sum>i<length (r_rewards ?R).
                       (r_action_log_probs ?R ! i) \<theta> *
                       (discount_rewards (r_rewards ?R) (gamma ?A) ! i -
                        ([\<lambda>\<theta>. \<theta> * 3] ! i) (params ?A)))
                   / real (length (r_rewards ?R)))
              + critic_loss [\<lambda>\<theta>. \<theta> * 3] (discount_rewards (r_rewards ?R) (gamma ?A)) \<theta>)"
    by blast
  moreover have "gamma ?A = 99 / 100" "params ?A = 1"
    by (simp_all add: Agent_init_def)
  ultimately show ?thesis
    by (simp add: discount_one)
qed

lemma critic_loss_eq:
  "critic_loss values G \<theta> =
     (\<Sum>g\<leftarrow>G. sqrt (\<Sum>v\<leftarrow>values. (v \<theta> - g + eps)\<^sup>2)) / real (length G)"
  by (simp add: critic_loss_def mean_def pairwise_distance_def as_tensor_def comp_def)

lemma drain_two:
  "drain two_step_agent =
     Inr \<lparr>r_action_log_probs = [\<lambda>\<theta>. 0, \<lambda>\<theta>. 0],
          r_states = [[2999999 / 1000000], [3999999 / 1000000]],
          r_next_states = [[3999999 / 1000000], [0]],
          r_rewards = [0, 0], r_done = [False, True]\<rparr>"
  by (simp add: drain_def two_step_agent_def store_outcome_def Agent_init_def torch_stack_def
      bind_exn_def)

lemma clear_two: "clear two_step_agent = Agent_init linear_policy 1 0"
  by (simp add: two_step_agent_def store_outcome_def Agent_init_def clear_def)

lemma discount_zero: "discount_rewards [0, 0] (99 / 100) = [0, 0]"
  by (simp add: discount_rewards_def numeral_2_eq_2)

lemma loss_two:
  "compute_loss (Agent_init linear_policy 1 0)
     \<lparr>r_action_log_probs = [\<lambda>\<theta>. 0, \<lambda>\<theta>. 0],
      r_states = [[2999999 / 1000000], [3999999 / 1000000]],
      r_next_states = [[3999999 / 1000000], [0]],
      r_rewards = [0, 0], r_done = [False, True]\<rparr> =
   Inr (\<lambda>\<theta>. - 0 +
          critic_loss [\<lambda>\<theta>. \<theta> * (2999999 / 1000000), \<lambda>\<theta>. \<theta> * (3999999 / 1000000)] [0, 0] \<theta>)"
  by (simp add: compute_loss_def Agent_init_def linear_policy_def discount_zero bind_exn_def
      advantages_def broadcast_def as_tensor_def actor_loss_def detach_def mean_def)

text \<open>
  Claim C4 says that the critic loss of \<open>update_policy\<close> is the mean over the steps of the
  distance between \<open>values[i]\<close> and \<open>G[i]\<close>, the mean absolute error. The code does not
  compute that. It passes the values as a one-dimensional tensor and the returns as a
  column, so the difference is taken between every value and every return, and the
  distance for step \<open>i\<close> is the Euclidean norm over all values \<open>j\<close> of
  \<open>values[j] - G[i] + eps\<close>. For two steps with returns \<open>0, 0\<close> and values
  \<open>2.999999, 3.999999\<close> the code's loss is \<open>5\<close>, the mean absolute error is \<open>3.499999\<close>;
  an update on that rollout with the step \<open>\<theta> - loss / 1000\<close> moves the parameter from \<open>1\<close>
  to \<open>0.995\<close>.
\<close>

theorem critic_loss_broadcast:
  "critic_loss values G \<theta> =
     (\<Sum>g\<leftarrow>G. sqrt (\<Sum>v\<leftarrow>values. (v \<theta> - g + eps)\<^sup>2)) / real (length G) \<and>
   critic_loss [\<lambda>_. 2999999 / 1000000, \<lambda>_. 3999999 / 1000000]
       (discount_rewards [0, 0] (99 / 100)) \<theta>' = 5 \<and>
   mean_absolute_error [\<lambda>_. 2999999 / 1000000, \<lambda>_. 3999999 / 1000000]
       (discount_rewards [0, 0] (99 / 100)) \<theta>' = 3499999 / 1000000 \<and>
   update_policy descent_step two_step_agent =
     (Inr (), Agent_init linear_policy (199 / 200) 1)"
proof (intro conjI)
  show "critic_loss values G \<theta> =
      (\<Sum>g\<leftarrow>G. sqrt (\<Sum>v\<leftarrow>values. (v \<theta> - g + eps)\<^sup>2)) / real (length G)"
    by (rule critic_loss_eq)
  have root: "sqrt 25 = 5"
    by (simp add: real_sqrt_unique)
  show "critic_loss [\<lambda>_. 2999999 / 1000000, \<lambda>_. 3999999 / 1000000]
      (discount_rewards [0, 0] (99 / 100)) \<theta>' = 5"
    by (simp add: critic_loss_eq discount_zero eps_def power2_eq_square root)
  show "mean_absolute_error [\<lambda>_. 2999999 / 1000000, \<lambda>_. 3999999 / 1000000]
      (discount_rewards [0, 0] (99 / 100)) \<theta>' = 3499999 / 1000000"
    by (simp add: mean_absolute_error_def discount_zero)
  show "update_policy descent_step two_step_agent =
      (Inr (), Agent_init linear_policy (199 / 200) 1)"
    by (simp add: update_policy_def drain_two clear_two loss_two descent_step_def)
      (simp add: Agent_init_def critic_loss_eq eps_def power2_eq_square root)
qed

subsection \<open>What the update does not read\<close>

lemma compute_loss_next_states:
  assumes "raised (policy A (Stacked ns')) = raised (policy A (Stacked (r_next_states R)))"
  shows "compute_loss A (R\<lparr>r_next_states := ns', r_done := d'\<rparr>) = compute_loss A R"
proof (cases "policy A (Stacked (r_next_states R))")
  case (Inl e)
  with assms have "policy A (Stacked ns') = Inl e"
    by (cases "policy A (Stacked ns')") (simp_all add: raised_def)
  with Inl show ?thesis
    by (simp add: compute_loss_def bind_exn_def Let_def split: sum.splits prod.splits)
next
  case (Inr y)
  with assms obtain y' where "policy A (Stacked ns') = Inr y'"
    by (cases "policy A (Stacked ns')") (simp_all add: raised_def)
  with Inr show ?thesis
    by (simp add: compute_loss_def bind_exn_def Let_def split: sum.splits prod.splits)
qed

lemma drain_next_states:
  assumes "length ns' = length (next_states A)"
  shows "drain (A\<lparr>next_states := ns', done_flags := d'\<rparr>) =
     map_sum id (\<lambda>R. R\<lparr>r_next_states := ns', r_done := d'\<rparr>) (drain A)"
proof -
  from assms have "ns' = [] \<longleftrightarrow> next_states A = []" by auto
  then show ?thesis
    by (auto simp: drain_def bind_exn_def torch_stack_def)
qed

subsection \<open>The target of the update\<close>

lemma update_policy_returns:
  assumes dr: "drain A = Inr R"
    and st: "policy A (Stacked (states A)) = Inr (d, critic_values)"
    and ns: "policy A (Stacked (next_states A)) = Inr (d', next_values)"
    and l1: "length (action_log_probs A) = length (rewards A)"
    and l2: "length critic_values = length (rewards A)"
  shows "update_policy adam A =
     (case adam
        (\<lambda>\<theta>. - ((\<Sum>i<length (rewards A).
                     (action_log_probs A ! i) \<theta> *
                     (discount_rewards (rewards A) (gamma A) ! i - (critic_values ! i) (params A)))
                 / real (length (rewards A)))
            + critic_loss critic_values (discount_rewards (rewards A) (gamma A)) \<theta>)
        (params A) (optimizer A) of
        Inl e \<Rightarrow> (Inl e, clear A)
      | Inr (\<theta>', opt') \<Rightarrow> (Inr (), (clear A)\<lparr>params := \<theta>', optimizer := opt'\<rparr>))"
proof -
  from dr have R: "R = \<lparr>r_action_log_probs = action_log_probs A, r_states = states A,
        r_next_states = next_states A, r_rewards = rewards A, r_done = done_flags A\<rparr>"
    by (auto dest: drain_Inr)
  have "compute_loss (clear A) R =
     Inr (\<lambda>\<theta>. - ((\<Sum>i<length (r_rewards R).
                      (r_action_log_probs R ! i) \<theta> *
                      (discount_rewards (r_rewards R) (gamma (clear A)) ! i -
                       (critic_values ! i) (params (clear A))))
                  / real (length (r_rewards R)))
             + critic_loss critic_values (discount_rewards (r_rewards R) (gamma (clear A))) \<theta>)"
    using st ns l1 l2
    by (intro compute_loss_returns [where d = d and d' = d' and next_values = next_values])
      (simp_all add: R clear_def)
  then have "compute_loss (clear A) R =
     Inr (\<lambda>\<theta>. - ((\<Sum>i<length (rewards A).
                     (action_log_probs A ! i) \<theta> *
                     (discount_rewards (rewards A) (gamma A) ! i - (critic_values ! i) (params A)))
                 / real (length (rewards A)))
            + critic_loss critic_values (discount_rewards (rewards A) (gamma A)) \<theta>)"
    by (simp add: R clear_def)
  moreover have "params (clear A) = params A" "optimizer (clear A) = optimizer A"
    by (simp_all add: clear_def)
  ultimately show ?thesis
    using dr by (simp add: update_policy_def Let_def)
qed

lemma update_policy_next_states:
  assumes "length ns' = length (next_states A)"
    and "raised (policy A (Stacked ns')) = raised (policy A (Stacked (next_states A)))"
  shows "fst (update_policy adam (A\<lparr>next_states := ns', done_flags := d'\<rparr>)) =
           fst (update_policy adam A) \<and>
         params (snd (update_policy adam (A\<lparr>next_states := ns', done_flags := d'\<rparr>))) =
           params (snd (update_policy adam A)) \<and>
         optimizer (snd (update_policy adam (A\<lparr>next_states := ns', done_flags := d'\<rparr>))) =
           optimizer (snd (update_policy adam A)) \<and>
         (\<forall>R. drain A = Inr R \<longrightarrow>
            (\<exists>R'. drain (A\<lparr>next_states := ns', done_flags := d'\<rparr>) = Inr R' \<and>
                  compute_loss (clear (A\<lparr>next_states := ns', done_flags := d'\<rparr>)) R' =
                    compute_loss (clear A) R))"
proof -
  let ?B = "A\<lparr>next_states := ns', done_flags := d'\<rparr>"
  have cl: "clear ?B = clear A"
    by (simp add: clear_def)
  show ?thesis
  proof (cases "drain A")
    case (Inl e)
    then have "drain ?B = Inl e"
      using drain_next_states [OF assms(1), of d'] by simp
    with Inl show ?thesis by (simp add: update_policy_def)
  next
    case (Inr R)
    then have B: "drain ?B = Inr (R\<lparr>r_next_states := ns', r_done := d'\<rparr>)"
      using drain_next_states [OF assms(1), of d'] by simp
    from Inr have "r_next_states R = next_states A"
      by (auto dest: drain_Inr)
    with assms(2) have "raised (policy (clear A) (Stacked ns')) =
        raised (policy (clear A) (Stacked (r_next_states R)))"
      by (simp add: clear_def)
    then have "compute_loss (clear A) (R\<lparr>r_next_states := ns', r_done := d'\<rparr>) =
        compute_loss (clear A) R"
      by (rule compute_loss_next_states)
    with Inr B cl show ?thesis
      by (simp add: update_policy_def)
  qed
qed

subsection \<open>The agent with two rewarded transitions\<close>

lemma drain_reward:
  "drain reward_agent =
     Inr \<lparr>r_action_log_probs = [\<lambda>\<theta>. \<theta>, \<lambda>\<theta>. \<theta>],
          r_states = [[119999999 / 1000000], [120999999 / 1000000]],
          r_next_states = [[120999999 / 1000000], [0]],
          r_rewards = [18, 100], r_done = [False, True]\<rparr>"
  by (simp add: drain_def reward_agent_def store_outcome_def Agent_init_def torch_stack_def
      bind_exn_def)

lemma clear_reward: "clear reward_agent = Agent_init linear_policy 1 0"
  by (simp add: reward_agent_def store_outcome_def Agent_init_def clear_def)

lemma discount_reward: "discount_rewards [18, 100] (99 / 100) = [117, 100]"
  by (simp add: discount_rewards_def numeral_2_eq_2)

lemma reward_agent_fields:
  "states reward_agent = [[119999999 / 1000000], [120999999 / 1000000]]"
  "next_states reward_agent = [[120999999 / 1000000], [0]]"
  "action_log_probs reward_agent = [\<lambda>\<theta>. \<theta>, \<lambda>\<theta>. \<theta>]"
  "rewards reward_agent = [18, 100]"
  "gamma reward_agent = 99 / 100"
  "params reward_agent = 1"
  "optimizer reward_agent = 0"
  "policy reward_agent = linear_policy"
  by (simp_all add: reward_agent_def store_outcome_def Agent_init_def)

lemma reward_agent_states_call:
  "policy reward_agent (Stacked (states reward_agent)) =
     Inr (\<lparr>loc = [\<lambda>\<theta>. \<theta> * (119999999 / 1000000), \<lambda>\<theta>. \<theta> * (120999999 / 1000000)],
           scale = [\<lambda>\<theta>. 1, \<lambda>\<theta>. 1]\<rparr>,
          [\<lambda>\<theta>. \<theta> * (119999999 / 1000000), \<lambda>\<theta>. \<theta> * (120999999 / 1000000)])"
  by (simp add: reward_agent_fields linear_policy_def)

lemma reward_agent_next_states_call:
  "policy reward_agent (Stacked (next_states reward_agent)) =
     Inr (\<lparr>loc = [\<lambda>\<theta>. \<theta> * (120999999 / 1000000), \<lambda>\<theta>. \<theta> * 0],
           scale = [\<lambda>\<theta>. 1, \<lambda>\<theta>. 1]\<rparr>,
          [\<lambda>\<theta>. \<theta> * (120999999 / 1000000), \<lambda>\<theta>. \<theta> * 0])"
  by (simp add: reward_agent_fields linear_policy_def)

lemma update_reward:
  "update_policy descent_step reward_agent =
     (Inr (), Agent_init linear_policy (971000001 / 1000000000) 1)"
proof -
  have root: "sqrt 25 = 5" "sqrt 841 = 29"
    by (simp_all add: real_sqrt_unique)
  have two: "{..<2 :: nat} = {0, 1}"
    by auto
  show ?thesis
    by (subst update_policy_returns
          [OF drain_reward reward_agent_states_call reward_agent_next_states_call])
      (simp_all add: reward_agent_fields discount_reward descent_step_def clear_reward
        critic_loss_eq eps_def power2_eq_square root two Agent_init_def)
qed

subsection \<open>The agent whose policy rejects some observations\<close>

lemma loss_one_picky:
  "compute_loss (Agent_init picky_policy 1 0)
     \<lparr>r_action_log_probs = [\<lambda>\<theta>. \<theta>], r_states = [[1, 2]], r_next_states = [[3, 4]],
      r_rewards = [1], r_done = [True]\<rparr> =
   Inr (\<lambda>\<theta>. - (\<theta> * (1 - 3)) + \<bar>\<theta> * 3 - 1 + eps\<bar>)"
  by (simp add: compute_loss_def Agent_init_def picky_policy_def linear_policy_def discount_one
      bind_exn_def advantages_def broadcast_def as_tensor_def actor_loss_def detach_def
      critic_loss_def mean_def pairwise_distance_def)

lemma update_one_picky:
  "update_policy descent_step (one_step_agent picky_policy) =
     (Inr (), Agent_init picky_policy (995999999 / 1000000000) 1)"
  by (simp add: update_policy_def drain_one clear_one loss_one_picky descent_step_def)
    (simp add: Agent_init_def eps_def)

lemma drain_one_picky_rejected:
  "drain ((one_step_agent picky_policy)\<lparr>next_states := [[- 1, 4]], done_flags := [False]\<rparr>) =
     Inr \<lparr>r_action_log_probs = [\<lambda>\<theta>. \<theta>], r_states = [[1, 2]], r_next_states = [[- 1, 4]],
          r_rewards = [1], r_done = [False]\<rparr>"
  by (simp add: drain_def one_step_agent_def store_outcome_def Agent_init_def torch_stack_def
      bind_exn_def)

lemma update_one_picky_rejected:
  "update_policy descent_step
     ((one_step_agent picky_policy)\<lparr>next_states := [[- 1, 4]], done_flags := [False]\<rparr>) =
     (Inl ''ValueError'', Agent_init picky_policy 1 0)"
proof -
  have cl: "clear ((one_step_agent picky_policy)\<lparr>next_states := [[- 1, 4]],
      done_flags := [False]\<rparr>) = Agent_init picky_policy 1 0"
    by (simp add: one_step_agent_def store_outcome_def Agent_init_def clear_def)
  have "compute_loss (Agent_init picky_policy 1 (0 :: nat))
      \<lparr>r_action_log_probs = [\<lambda>\<theta>. \<theta>], r_states = [[1, 2]], r_next_states = [[- 1, 4]],
       r_rewards = [1], r_done = [False]\<rparr> = Inl ''ValueError''"
    by (simp add: compute_loss_def Agent_init_def picky_policy_def linear_policy_def
        bind_exn_def)
  then show ?thesis
    by (simp add: update_policy_def drain_one_picky_rejected cl Let_def)
qed

text \<open>
  Claim C6, as the code has it. \<open>update_policy\<close> takes the plain discounted returns as the
  target: with \<open>G = discount_rewards(rewards, gamma)\<close>, so \<open>G[t] = r[t] + gamma * G[t+1]\<close>
  and \<open>G[N] = 0\<close>, the loss that it hands to the optimizer is the actor loss with the
  advantages \<open>G - values\<close> plus the critic loss of the values against \<open>G\<close>; neither the done
  flags nor the values of the next states occur in it. The policy is still called on
  the next states, though. So two buffered rollouts of the same number of steps that
  agree on states, log-probabilities and rewards and differ in the done flags or the
  next states give the same losses, the same outcome and the same new parameters and
  optimizer state whenever that call ends alike on both (it returns on both, or raises
  the same exception on both). For two transitions with rewards \<open>18, 100\<close> the target is
  \<open>117, 100\<close>, and one update with the step \<open>\<theta> - loss / 1000\<close> moves the parameter from \<open>1\<close>
  to \<open>0.971000001\<close>.
\<close>

theorem update_policy_discounted_target:
  "(drain A = Inr R \<and>
    policy A (Stacked (states A)) = Inr (d, critic_values) \<and>
    policy A (Stacked (next_states A)) = Inr (d', next_values) \<and>
    length (action_log_probs A) = length (rewards A) \<and>
    length critic_values = length (rewards A) \<longrightarrow>
      length (discount_rewards (rewards A) (gamma A)) = length (rewards A) \<and>
      (\<forall>t<length (rewards A).
         discount_rewards (rewards A) (gamma A) ! t =
           rewards A ! t +
           gamma A * (if Suc t < length (rewards A)
                      then discount_rewards (rewards A) (gamma A) ! Suc t else 0)) \<and>
      update_policy adam A =
        (case adam
           (\<lambda>\<theta>. - ((\<Sum>i<length (rewards A).
                        (action_log_probs A ! i) \<theta> *
                        (discount_rewards (rewards A) (gamma A) ! i -
                         (critic_values ! i) (params A)))
                    / real (length (rewards A)))
               + critic_loss critic_values (discount_rewards (rewards A) (gamma A)) \<theta>)
           (params A) (optimizer A) of
           Inl e \<Rightarrow> (Inl e, clear A)
         | Inr (\<theta>', opt') \<Rightarrow> (Inr (), (clear A)\<lparr>params := \<theta>', optimizer := opt'\<rparr>))) \<and>
   (length ns' = length (next_states A) \<and>
    raised (policy A (Stacked ns')) = raised (policy A (Stacked (next_states A))) \<longrightarrow>
      fst (update_policy adam (A\<lparr>next_states := ns', done_flags := flags'\<rparr>)) =
        fst (update_policy adam A) \<and>
      params (snd (update_policy adam (A\<lparr>next_states := ns', done_flags := flags'\<rparr>))) =
        params (snd (update_policy adam A)) \<and>
      optimizer (snd (update_policy adam (A\<lparr>next_states := ns', done_flags := flags'\<rparr>))) =
        optimizer (snd (update_policy adam A)) \<and>
      (\<forall>R. drain A = Inr R \<longrightarrow>
         (\<exists>R'. drain (A\<lparr>next_states := ns', done_flags := flags'\<rparr>) = Inr R' \<and>
               compute_loss (clear (A\<lparr>next_states := ns', done_flags := flags'\<rparr>)) R' =
                 compute_loss (clear A) R))) \<and>
   update_policy descent_step reward_agent =
     (Inr (), Agent_init linear_policy (971000001 / 1000000000) 1)"
proof (intro conjI impI allI)
  assume a: "drain A = Inr R \<and>
    policy A (Stacked (states A)) = Inr (d, critic_values) \<and>
    policy A (Stacked (next_states A)) = Inr (d', next_values) \<and>
    length (action_log_probs A) = length (rewards A) \<and>
    length critic_values = length (rewards A)"
  show "length (discount_rewards (rewards A) (gamma A)) = length (rewards A)"
    by (rule length_discount_rewards)
  show "discount_rewards (rewards A) (gamma A) ! t =
      rewards A ! t +
      gamma A * (if Suc t < length (rewards A)
                 then discount_rewards (rewards A) (gamma A) ! Suc t else 0)"
    if "t < length (rewards A)" for t
    using that by (rule discount_rewards_nth)
  from a show "update_policy adam A =
      (case adam
         (\<lambda>\<theta>. - ((\<Sum>i<length (rewards A).
                      (action_log_probs A ! i) \<theta> *
                      (discount_rewards (rewards A) (gamma A) ! i -
                       (critic_values ! i) (params A)))
                  / real (length (rewards A)))
             + critic_loss critic_values (discount_rewards (rewards A) (gamma A)) \<theta>)
         (params A) (optimizer A) of
         Inl e \<Rightarrow> (Inl e, clear A)
       | Inr (\<theta>', opt') \<Rightarrow> (Inr (), (clear A)\<lparr>params := \<theta>', optimizer := opt'\<rparr>))"
    by (intro update_policy_returns [where R = R and d = d and d' = d'
          and next_values = next_values]) simp_all
next
  assume b: "length ns' = length (next_states A) \<and>
    raised (policy A (Stacked ns')) = raised (policy A (Stacked (next_states A)))"
  note inv = update_policy_next_states [OF conjunct1 [OF b] conjunct2 [OF b], of adam flags']
  from inv show "fst (update_policy adam (A\<lparr>next_states := ns', done_flags := flags'\<rparr>)) =
      fst (update_policy adam A)"
    by (rule conjunct1)
  from inv show "params (snd (update_policy adam (A\<lparr>next_states := ns', done_flags := flags'\<rparr>))) =
      params (snd (update_policy adam A))"
    by (rule conjunct1 [OF conjunct2])
  from inv show "optimizer (snd (update_policy adam (A\<lparr>next_states := ns', done_flags := flags'\<rparr>))) =
      optimizer (snd (update_policy adam A))"
    by (rule conjunct1 [OF conjunct2 [OF conjunct2]])
  show "\<exists>R'. drain (A\<lparr>next_states := ns', done_flags := flags'\<rparr>) = Inr R' \<and>
      compute_loss (clear (A\<lparr>next_states := ns', done_flags := flags'\<rparr>)) R' =
        compute_loss (clear A) R0" if "drain A = Inr R0" for R0
    using inv that by blast
next
  show "update_policy descent_step reward_agent =
      (Inr (), Agent_init linear_policy (971000001 / 1000000000) 1)"
    by (rule update_reward)
qed

theorem update_policy_discounted_target_witness:
  "length (discount_rewards (rewards reward_agent) (gamma reward_agent)) = 2 \<and>
   discount_rewards (rewards reward_agent) (gamma reward_agent) ! 1 = 100 \<and>
   discount_rewards (rewards reward_agent) (gamma reward_agent) ! 0 =
     18 + 99 / 100 * discount_rewards (rewards reward_agent) (gamma reward_agent) ! 1 \<and>
   fst (update_policy descent_step
         (reward_agent\<lparr>next_states := [[7], [8]], done_flags := [True, True]\<rparr>)) = Inr () \<and>
   params (snd (update_policy descent_step
         (reward_agent\<lparr>next_states := [[7], [8]], done_flags := [True, True]\<rparr>))) =
     971000001 / 1000000000"
proof -
  note inst = update_policy_discounted_target
    [of reward_agent _ _ _ _ _ descent_step "[[7], [8]]" "[True, True]"]
  have pre: "drain reward_agent =
        Inr \<lparr>r_action_log_probs = [\<lambda>\<theta>. \<theta>, \<lambda>\<theta>. \<theta>],
             r_states = [[119999999 / 1000000], [120999999 / 1000000]],
             r_next_states = [[120999999 / 1000000], [0]],
             r_rewards = [18, 100], r_done = [False, True]\<rparr> \<and>
      policy reward_agent (Stacked (states reward_agent)) =
        Inr (\<lparr>loc = [\<lambda>\<theta>. \<theta> * (119999999 / 1000000), \<lambda>\<theta>. \<theta> * (120999999 / 1000000)],
              scale = [\<lambda>\<theta>. 1, \<lambda>\<theta>. 1]\<rparr>,
             [\<lambda>\<theta>. \<theta> * (119999999 / 1000000), \<lambda>\<theta>. \<theta> * (120999999 / 1000000)]) \<and>
      policy reward_agent (Stacked (next_states reward_agent)) =
        Inr (\<lparr>loc = [\<lambda>\<theta>. \<theta> * (120999999 / 1000000), \<lambda>\<theta>. \<theta> * 0],
              scale = [\<lambda>\<theta>. 1, \<lambda>\<theta>. 1]\<rparr>,
             [\<lambda>\<theta>. \<theta> * (120999999 / 1000000), \<lambda>\<theta>. \<theta> * 0]) \<and>
      length (action_log_probs reward_agent) = length (rewards reward_agent) \<and>
      length [\<lambda>\<theta> :: real. \<theta> * (119999999 / 1000000), \<lambda>\<theta>. \<theta> * (120999999 / 1000000)] =
        length (rewards reward_agent)"
    by (intro conjI drain_reward reward_agent_states_call reward_agent_next_states_call)
      (simp_all add: reward_agent_fields)
  have alike: "length [[7], [8 :: real]] = length (next_states reward_agent) \<and>
      raised (policy reward_agent (Stacked [[7], [8]])) =
        raised (policy reward_agent (Stacked (next_states reward_agent)))"
    by (simp add: reward_agent_fields linear_policy_def raised_def)
  from inst pre
  have len: "length (discount_rewards (rewards reward_agent) (gamma reward_agent)) =
      length (rewards reward_agent)"
    and rec: "\<forall>t<length (rewards reward_agent).
      discount_rewards (rewards reward_agent) (gamma reward_agent) ! t =
        rewards reward_agent ! t +
        gamma reward_agent * (if Suc t < length (rewards reward_agent)
          then discount_rewards (rewards reward_agent) (gamma reward_agent) ! Suc t else 0)"
    by blast+
  from inst alike
  have out: "fst (update_policy descent_step
        (reward_agent\<lparr>next_states := [[7], [8]], done_flags := [True, True]\<rparr>)) =
      fst (update_policy descent_step reward_agent)"
    and par: "params (snd (update_policy descent_step
        (reward_agent\<lparr>next_states := [[7], [8]], done_flags := [True, True]\<rparr>))) =
      params (snd (update_policy descent_step reward_agent))"
    by blast+
  from inst have upd: "update_policy descent_step reward_agent =
      (Inr (), Agent_init linear_policy (971000001 / 1000000000) 1)"
    by blast
  have n: "length (rewards reward_agent) = 2"
    by (simp add: reward_agent_fields)
  from rec n have r1: "discount_rewards (rewards reward_agent) (gamma reward_agent) ! 1 = 100"
    by (simp add: reward_agent_fields)
  from rec n have r0: "discount_rewards (rewards reward_agent) (gamma reward_agent) ! 0 =
      18 + 99 / 100 * discount_rewards (rewards reward_agent) (gamma reward_agent) ! 1"
    by (simp add: reward_agent_fields)
  have p: "params (Agent_init linear_policy (971000001 / 1000000000) (1 :: nat) ::
      (real list, real, nat) agent) = 971000001 / 1000000000"
    by (simp add: Agent_init_def)
  from len n r1 r0 out par upd p show ?thesis
    by simp
qed

theorem update_policy_next_states_counterexample:
  "states ((one_step_agent picky_policy)\<lparr>next_states := [[- 1, 4]], done_flags := [False]\<rparr>) =
     states (one_step_agent picky_policy) \<and>
   action_log_probs
     ((one_step_agent picky_policy)\<lparr>next_states := [[- 1, 4]], done_flags := [False]\<rparr>) =
     action_log_probs (one_step_agent picky_policy) \<and>
   rewards ((one_step_agent picky_policy)\<lparr>next_states := [[- 1, 4]], done_flags := [False]\<rparr>) =
     rewards (one_step_agent picky_policy) \<and>
   update_policy descent_step (one_step_agent picky_policy) =
     (Inr (), Agent_init picky_policy (995999999 / 1000000000) 1) \<and>
   update_policy descent_step
     ((one_step_agent picky_policy)\<lparr>next_states := [[- 1, 4]], done_flags := [False]\<rparr>) =
     (Inl ''ValueError'', Agent_init picky_policy 1 0) \<and>
   fst (update_policy descent_step (one_step_agent picky_policy)) \<noteq>
     fst (update_policy descent_step
           ((one_step_agent picky_policy)\<lparr>next_states := [[- 1, 4]], done_flags := [False]\<rparr>)) \<and>
   params (snd (update_policy descent_step (one_step_agent picky_policy))) \<noteq>
     params (snd (update_policy descent_step
           ((one_step_agent picky_policy)\<lparr>next_states := [[- 1, 4]], done_flags := [False]\<rparr>)))"
  by (simp add: update_one_picky update_one_picky_rejected)
    (simp add: Agent_init_def)

end
